theory Spec2Isabelle
  imports Complex_Main
begin

section \<open>Damped-local-trend prediction (orbit/dlt.py, \<open>DLT._predict\<close>)\<close>

text \<open>
  The theory embeds \<open>DLT._predict\<close> of \<open>src/orbit/dlt.py\<close>. Conventions:

  \<^item> Floating point numbers are idealised as \<open>real\<close>; \<open>torch.log\<close> and \<open>torch.exp\<close> are
    \<open>ln\<close> and \<open>exp\<close>. Nothing below depends on rounding.
  \<^item> A one-dimensional tensor of shape \<open>(n,)\<close> is a \<open>real list\<close> of length \<open>n\<close>.
  \<^item> A two-dimensional tensor of shape \<open>(n, T)\<close> (draws by time) is held as the list of its
    \<open>T\<close> columns, each a vector over the \<open>n\<close> draws: the source only ever addresses such a
    tensor by column (\<open>X[:, j]\<close>, \<open>X[:, :k]\<close>, \<open>X[:, k:]\<close>, \<open>cat(..., dim=1)\<close>), so
    \<open>X[:, j]\<close> is \<open>X ! j\<close> and entry \<open>(i, j)\<close> is \<open>X ! j ! i\<close>. A tensor without columns does not
    record its number of rows.
  \<^item> Every exception the Python can raise on the modelled path is a value of \<open>error\<close>.
  \<^item> The posterior arrays and the caller's frame are objects of a store, so that copying
    and writing in place are visible; tensors the call builds for itself are values.
\<close>

subsection \<open>Errors\<close>

text \<open>
  The first two are the exceptions \<open>_predict\<close> raises itself; the next five are raised by
  Python, pandas and torch. \<open>OutsideModel\<close> is not an exception: it marks the few places,
  each named where it occurs, at which the model stops following the libraries.
\<close>

datatype error =
    IllegalArgument
  | PredictionException
  | KeyError
  | IndexError
  | TypeError
  | AttributeError
  | RuntimeError
  | OutsideModel

definition ebind :: "error + 'a \<Rightarrow> ('a \<Rightarrow> error + 'b) \<Rightarrow> error + 'b" where
  "ebind m f = (case m of Inl e \<Rightarrow> Inl e | Inr x \<Rightarrow> f x)"

fun sequence :: "(error + 'a) list \<Rightarrow> error + 'a list" where
  "sequence [] = Inr []"
| "sequence (m # ms) = ebind m (\<lambda>x. ebind (sequence ms) (\<lambda>xs. Inr (x # xs)))"

subsection \<open>Vectors and tensors\<close>

type_synonym vec = "real list"
type_synonym tensor = "real list list"

text \<open>
  Elementwise binary operation of torch on two one-dimensional tensors: equal sizes
  combine pointwise, a size of one is broadcast, anything else raises \<open>RuntimeError\<close>.
\<close>

definition broadcast2 :: "(real \<Rightarrow> real \<Rightarrow> real) \<Rightarrow> vec \<Rightarrow> vec \<Rightarrow> error + vec" where
  "broadcast2 f xs ys =
     (if length xs = length ys then Inr (map2 f xs ys)
      else if length xs = 1 then Inr (map (f (hd xs)) ys)
      else if length ys = 1 then Inr (map (\<lambda>x. f x (hd ys)) xs)
      else Inl RuntimeError)"

text \<open>
  The operands of a Python expression are evaluated left to right, then the operation is
  applied; \<open>lift2\<close> threads the first exception through in that order.
\<close>

definition lift2 ::
  "(real \<Rightarrow> real \<Rightarrow> real) \<Rightarrow> error + vec \<Rightarrow> error + vec \<Rightarrow> error + vec" where
  "lift2 f a b = ebind a (\<lambda>x. ebind b (\<lambda>y. broadcast2 f x y))"

definition vadd :: "error + vec \<Rightarrow> error + vec \<Rightarrow> error + vec" where
  "vadd = lift2 (+)"

definition vsub :: "error + vec \<Rightarrow> error + vec \<Rightarrow> error + vec" where
  "vsub = lift2 (-)"

definition vmul :: "error + vec \<Rightarrow> error + vec \<Rightarrow> error + vec" where
  "vmul = lift2 (*)"

text \<open>A Python scalar combined with a tensor: \<open>1 - v\<close>, \<open>1 + v\<close>, \<open>v * k\<close>, \<open>torch.log(v)\<close>.\<close>

definition vmap :: "(real \<Rightarrow> real) \<Rightarrow> error + vec \<Rightarrow> error + vec" where
  "vmap f a = ebind a (\<lambda>x. Inr (map f x))"

text \<open>
  \<open>torch.log\<close> and \<open>torch.exp\<close>. They are kept as constants of their own, with no code
  equation, so that symbolic evaluation leaves them alone.
\<close>

definition torch_log :: "real \<Rightarrow> real" where
  "torch_log x = ln x"

definition torch_exp :: "real \<Rightarrow> real" where
  "torch_exp x = exp x"

declare torch_log_def [code del]
declare torch_exp_def [code del]

text \<open>\<open>torch.zeros((n, k), dtype=torch.double)\<close>; a negative dimension raises.\<close>

definition zeros :: "nat \<Rightarrow> int \<Rightarrow> error + tensor" where
  "zeros n k = (if k < 0 then Inl RuntimeError else Inr (replicate (nat k) (replicate n 0)))"

text \<open>\<open>X[:, :k]\<close> with Python's slice rule for a negative bound.\<close>

definition slice_to :: "tensor \<Rightarrow> int \<Rightarrow> tensor" where
  "slice_to X k = (if 0 \<le> k then take (nat k) X else take (nat (int (length X) + k)) X)"

text \<open>\<open>X[:, k:]\<close> for a position \<open>k \<ge> 0\<close>.\<close>

definition slice_from :: "tensor \<Rightarrow> nat \<Rightarrow> tensor" where
  "slice_from X k = drop k X"

text \<open>\<open>X[:, j]\<close> read, for \<open>j \<ge> 0\<close>.\<close>

definition col :: "tensor \<Rightarrow> nat \<Rightarrow> error + vec" where
  "col X j = (if j < length X then Inr (X ! j) else Inl IndexError)"

text \<open>
  \<open>X[:, j] = v\<close>: the index must exist, and \<open>v\<close> must have the column's size or size one.
\<close>

definition fit :: "nat \<Rightarrow> vec \<Rightarrow> error + vec" where
  "fit n v =
     (if length v = n then Inr v
      else if length v = 1 then Inr (replicate n (hd v))
      else Inl RuntimeError)"

definition set_col :: "tensor \<Rightarrow> nat \<Rightarrow> vec \<Rightarrow> error + tensor" where
  "set_col X j v =
     (if j < length X then ebind (fit (length (X ! j)) v) (\<lambda>w. Inr (X[j := w]))
      else Inl IndexError)"

text \<open>\<open>X[:, j] += v\<close>: in place, so the sum must keep the column's size.\<close>

definition add_col :: "tensor \<Rightarrow> nat \<Rightarrow> vec \<Rightarrow> error + tensor" where
  "add_col X j v =
     (if j < length X
      then ebind (fit (length (X ! j)) v) (\<lambda>w. Inr (X[j := map2 (+) (X ! j) w]))
      else Inl IndexError)"

text \<open>\<open>torch.cat((A, B), dim=1)\<close>: the numbers of rows must agree.\<close>

definition cat1 :: "tensor \<Rightarrow> tensor \<Rightarrow> error + tensor" where
  "cat1 A B =
     (if A = [] \<or> B = [] \<or> length (hd A) = length (hd B) then Inr (A @ B)
      else Inl RuntimeError)"

text \<open>
  \<open>A + B\<close> on two-dimensional tensors, with torch's broadcasting on both axes: along the
  time axis the sizes must be equal or one of them one.
\<close>

definition tensor_add :: "tensor \<Rightarrow> tensor \<Rightarrow> error + tensor" where
  "tensor_add A B =
     (if length A = length B then sequence (map2 (broadcast2 (+)) A B)
      else if length A = 1 then sequence (map (broadcast2 (+) (hd A)) B)
      else if length B = 1 then sequence (map (\<lambda>a. broadcast2 (+) a (hd B)) A)
      else Inl RuntimeError)"

text \<open>
  \<open>torch.matmul(A, B)\<close> for \<open>A\<close> of shape \<open>(m, k)\<close> and \<open>B\<close> of shape \<open>(k, n)\<close>, both as
  column lists: column \<open>c\<close> of the product is the combination of the columns of \<open>A\<close> with
  the entries of column \<open>c\<close> of \<open>B\<close>. \<open>X.t()\<close> is \<open>transpose\<close>.
\<close>

definition dot :: "vec \<Rightarrow> vec \<Rightarrow> real" where
  "dot xs ys = sum_list (map2 (*) xs ys)"

definition matmul :: "tensor \<Rightarrow> tensor \<Rightarrow> error + tensor" where
  "matmul A B =
     (if list_all (\<lambda>c. length c = length A) B
      then Inr (map (\<lambda>c. map (\<lambda>row. dot row c) (transpose A)) B)
      else Inl RuntimeError)"

subsection \<open>Posterior draws, data frames and the object store\<close>

text \<open>
  A posterior array is a numpy array whose first axis is the draw index; the sampler
  produces arrays of rank one (one number per draw) and of rank two.
\<close>

datatype ndarray = A1 vec | A2 tensor

text \<open>
  The keys of the posterior dictionary are the values of the enumerations of
  \<open>orbit.constants.dlt\<close>. That module is not among the sources, so the model uses the
  enumeration member itself as the key; \<open>OTHER\<close> stands for any key \<open>_predict\<close> never asks for.
\<close>

datatype param =
    SEASONALITY_LEVELS
  | SEASONALITY_SMOOTHING_FACTOR
  | SLOPE_SMOOTHING_FACTOR
  | LEVEL_SMOOTHING_FACTOR
  | LOCAL_TREND_LEVELS
  | LOCAL_TREND_SLOPES
  | LOCAL_TREND
  | RESIDUAL_DEGREE_OF_FREEDOM
  | RESIDUAL_SIGMA
  | DAMPED_FACTOR
  | GLOBAL_TREND_LEVEL
  | GLOBAL_TREND_SLOPE
  | GLOBAL_TREND
  | POSITIVE_REGRESSOR_BETA
  | REGULAR_REGRESSOR_BETA
  | OTHER string

text \<open>
  A data frame: its date column (the column named \<open>self.date_col\<close>; dates are integers, as
  pandas timestamps are) and its numeric columns by name. \<open>len(df.index)\<close> is the length of
  the date column.
\<close>

record dataframe =
  date_values :: "int list"
  num_columns :: "(string \<times> real list) list"

text \<open>
  Python objects that \<open>_predict\<close> can alias or mutate live in a store; a reference is a
  position in it. Allocation appends, so a fresh reference is never one in use.
\<close>

datatype obj = Array ndarray | Frame dataframe

type_synonym addr = nat
type_synonym store = "obj list"

definition alloc :: "store \<Rightarrow> obj \<Rightarrow> store \<times> addr" where
  "alloc s ob = (s @ [ob], length s)"

record training_meta =
  training_start :: int
  training_end :: int
  training_df_length :: nat
  training_date_array :: "int list"

record prediction_meta =
  date_array :: "int list"
  df_length :: nat
  prediction_start :: int
  prediction_end :: int

text \<open>
  The attributes of \<open>self\<close> that \<open>_predict\<close> reads. \<open>scale_df\<close> and \<open>log_transform_df\<close> are the
  methods \<open>_scale_df(df, do_fit=False)\<close> and \<open>_log_transform_df(df, do_fit=False)\<close> of the
  parent class, which is not among the sources: they are parameters here, given the store
  and the reference of the frame they are called on, and giving back the store and the
  reference they return (or the exception they raise). \<open>inverse_transform\<close> is the fitted
  \<open>response_min_max_scaler\<close> of scikit-learn, an elementwise map.
\<close>

record self =
  regressor_col :: "string list option"
  regular_regressor_col :: "string list"
  is_multiplicative :: bool
  auto_scale :: bool
  seasonality :: int
  use_log_global_trend :: bool
  damped_factor_fixed :: real
  training_df_meta :: training_meta
  posterior_state :: "(param \<times> addr) list"
  scale_df :: "store \<Rightarrow> addr \<Rightarrow> store \<times> (error + addr)"
  log_transform_df :: "store \<Rightarrow> addr \<Rightarrow> store \<times> (error + addr)"
  inverse_transform :: "real \<Rightarrow> real"

subsection \<open>Model attributes (lines 207--261)\<close>

text \<open>
  \<open>deepcopy(self._posterior_state)\<close>: every array of the dictionary is copied into a fresh
  object. (Python would keep two keys that share one array sharing one copy; the sampler
  gives every parameter an array of its own.)
\<close>

fun deepcopy :: "store \<Rightarrow> (param \<times> addr) list \<Rightarrow> store \<times> (param \<times> addr) list" where
  "deepcopy s [] = (s, [])"
| "deepcopy s ((k, a) # kas) =
     (let (s1, a1) = alloc s (s ! a); (s2, kas2) = deepcopy s1 kas in (s2, (k, a1) # kas2))"

text \<open>
  \<open>model[k] = torch.from_numpy(v)\<close> for every entry: the tensor shares the array's memory,
  so the entry keeps its reference; anything but an array raises \<open>TypeError\<close>. The values
  read are the arrays' contents at that moment. Python has no reference to nothing: a
  reference that is not in the store is \<open>OutsideModel\<close>.
\<close>

definition from_numpy :: "store \<Rightarrow> param \<times> addr \<Rightarrow> error + param \<times> ndarray" where
  "from_numpy s ka =
     (if snd ka < length s
      then (case s ! snd ka of Array v \<Rightarrow> Inr (fst ka, v) | Frame f \<Rightarrow> Inl TypeError)
      else Inl OutsideModel)"

text \<open>Accessors, failing the way the use in the source fails.\<close>

definition shape0 :: "ndarray \<Rightarrow> nat" where
  "shape0 v = (case v of A1 x \<Rightarrow> length x | A2 X \<Rightarrow> (case X of [] \<Rightarrow> 0 | c # cs \<Rightarrow> length c))"

definition numel :: "ndarray \<Rightarrow> nat" where
  "numel v = (case v of A1 x \<Rightarrow> length x | A2 X \<Rightarrow> sum_list (map length X))"

definition item :: "ndarray \<Rightarrow> real" where
  "item v = (case v of A1 x \<Rightarrow> hd x | A2 X \<Rightarrow> hd (concat X))"

text \<open>\<open>v.shape[1]\<close>.\<close>

definition shape1 :: "ndarray option \<Rightarrow> error + nat" where
  "shape1 v =
     (case v of None \<Rightarrow> Inl AttributeError
      | Some (A1 x) \<Rightarrow> Inl IndexError
      | Some (A2 X) \<Rightarrow> Inr (length X))"

text \<open>\<open>v[:, ...]\<close>: the tensor must exist and have two axes.\<close>

definition mat :: "ndarray option \<Rightarrow> error + tensor" where
  "mat v =
     (case v of None \<Rightarrow> Inl TypeError
      | Some (A1 x) \<Rightarrow> Inl IndexError
      | Some (A2 X) \<Rightarrow> Inr X)"

text \<open>
  A per-draw parameter used in elementwise arithmetic with per-draw vectors. \<open>None\<close> raises
  \<open>TypeError\<close>. With an array of rank two torch would broadcast to a matrix; the model does
  not follow it there and stops with \<open>OutsideModel\<close>.
\<close>

definition as_vec :: "ndarray option \<Rightarrow> error + vec" where
  "as_vec v =
     (case v of None \<Rightarrow> Inl TypeError
      | Some (A1 x) \<Rightarrow> Inr x
      | Some (A2 X) \<Rightarrow> Inl OutsideModel)"

text \<open>\<open>v.flatten()\<close>, in row-major order.\<close>

definition flatten :: "ndarray option \<Rightarrow> error + vec" where
  "flatten v =
     (case v of None \<Rightarrow> Inl AttributeError
      | Some (A1 x) \<Rightarrow> Inr x
      | Some (A2 X) \<Rightarrow> Inr (concat (transpose X)))"

text \<open>\<open>v[:, -1]\<close>.\<close>

definition last_col :: "ndarray option \<Rightarrow> error + vec" where
  "last_col v = ebind (mat v) (\<lambda>X. if X = [] then Inl IndexError else Inr (last X))"

text \<open>\<open>b if len(b.shape) == 2 else b.reshape(1, -1)\<close>.\<close>

definition as_2d :: "ndarray \<Rightarrow> tensor" where
  "as_2d v = (case v of A1 x \<Rightarrow> map (\<lambda>c. [c]) x | A2 X \<Rightarrow> X)"

text \<open>
  Lines 254--261. With both betas present they are concatenated along the regressor axis.
  Otherwise the source writes \<open>pr_beta or rr_beta\<close>, which asks for the truth value of
  \<open>pr_beta\<close> when that is a tensor: torch raises \<open>RuntimeError\<close> unless it has exactly one
  element, and a single zero counts as false.
\<close>

definition regressor_beta_of :: "ndarray option \<Rightarrow> ndarray option \<Rightarrow> error + ndarray option" where
  "regressor_beta_of pr_beta rr_beta =
     (case (pr_beta, rr_beta) of
        (Some p, Some r) \<Rightarrow> ebind (cat1 (as_2d p) (as_2d r)) (\<lambda>X. Inr (Some (A2 X)))
      | (None, _) \<Rightarrow> Inr rr_beta
      | (Some p, None) \<Rightarrow>
          (if numel p \<noteq> 1 then Inl RuntimeError
           else if item p \<noteq> 0 then Inr pr_beta else Inr rr_beta))"

record attributes =
  num_sample :: nat
  seasonality_levels :: "ndarray option"
  seasonality_smoothing_factor :: "ndarray option"
  slope_smoothing_factor :: "ndarray option"
  level_smoothing_factor :: "ndarray option"
  local_trend_levels :: "ndarray option"
  local_trend_slopes :: "ndarray option"
  local_trend :: "ndarray option"
  damped_factor :: "ndarray option"
  global_trend_level :: "ndarray option"
  global_trend_slope :: "ndarray option"
  global_trend :: "ndarray option"
  regressor_beta :: "ndarray option"

definition model_attributes :: "self \<Rightarrow> (param \<times> ndarray) list \<Rightarrow> error + attributes" where
  "model_attributes slf model =
     (case model of
        [] \<Rightarrow> Inl IndexError
      | kv # kvs \<Rightarrow>
          (let n = shape0 (snd kv); get = map_of model in
           ebind (regressor_beta_of (get POSITIVE_REGRESSOR_BETA) (get REGULAR_REGRESSOR_BETA))
             (\<lambda>beta. Inr \<lparr>
                num_sample = n,
                seasonality_levels = get SEASONALITY_LEVELS,
                seasonality_smoothing_factor = get SEASONALITY_SMOOTHING_FACTOR,
                slope_smoothing_factor = get SLOPE_SMOOTHING_FACTOR,
                level_smoothing_factor = get LEVEL_SMOOTHING_FACTOR,
                local_trend_levels = get LOCAL_TREND_LEVELS,
                local_trend_slopes = get LOCAL_TREND_SLOPES,
                local_trend = get LOCAL_TREND,
                damped_factor =
                  (if damped_factor_fixed slf > 0
                   then Some (A1 (replicate n (damped_factor_fixed slf)))
                   else get DAMPED_FACTOR),
                global_trend_level = get GLOBAL_TREND_LEVEL,
                global_trend_slope = get GLOBAL_TREND_SLOPE,
                global_trend = get GLOBAL_TREND,
                regressor_beta = beta \<rparr>)))"

subsection \<open>Prediction attributes and the horizon (lines 267--316)\<close>

definition prediction_df_meta :: "dataframe \<Rightarrow> error + prediction_meta" where
  "prediction_df_meta df =
     (if date_values df = [] then Inl IndexError
      else Inr \<lparr> date_array = date_values df,
                 df_length = length (date_values df),
                 prediction_start = hd (date_values df),
                 prediction_end = last (date_values df) \<rparr>)"

text \<open>
  Modelled from the spec: \<open>is_ordered_datetime\<close> of \<open>orbit.utils.utils\<close> is not among the
  sources. The spec has the date sequence valid when it is strictly increasing with no
  repeats, and the message of the exception it guards says the same.
\<close>

definition is_ordered_datetime :: "int list \<Rightarrow> bool" where
  "is_ordered_datetime ds = sorted_wrt (<) ds"

text \<open>
  \<open>pd.Index(dates).get_loc(d)\<close>: the position of \<open>d\<close> when it occurs once, \<open>KeyError\<close> when it
  does not occur. When it occurs several times pandas returns a slice or a mask, which
  line 423 then refuses as a slice bound.
\<close>

datatype loc = Loc nat | LocMany

fun first_index :: "int list \<Rightarrow> int \<Rightarrow> nat" where
  "first_index [] d = 0"
| "first_index (x # xs) d = (if x = d then 0 else Suc (first_index xs d))"

definition get_loc :: "int list \<Rightarrow> int \<Rightarrow> error + loc" where
  "get_loc dates d =
     (if d \<notin> set dates then Inl KeyError
      else if count_list dates d = 1 then Inr (Loc (first_index dates d))
      else Inr LocMany)"

text \<open>Lines 296--314: the number of forecast steps and the start index.\<close>

definition horizon :: "training_meta \<Rightarrow> prediction_meta \<Rightarrow> error + int \<times> loc" where
  "horizon tm pm =
     (if prediction_start pm > training_end tm
      then Inr (int (card (set (date_array pm))), Loc (training_df_length tm))
      else
        (let forecast_dates = set (date_array pm) - set (training_date_array tm);
             n_forecast_steps =
               (if card forecast_dates \<noteq> 0 then int (card forecast_dates)
                else - int (card (set (training_date_array tm) - set (date_array pm))))
         in ebind (get_loc (training_date_array tm) (prediction_start pm))
              (\<lambda>start. Inr (n_forecast_steps, start))))"

subsection \<open>Regression and seasonality components (lines 322--348)\<close>

text \<open>\<open>df[cols].values\<close>: the named columns, \<open>KeyError\<close> when one is missing.\<close>

definition df_values :: "dataframe \<Rightarrow> string list \<Rightarrow> error + tensor" where
  "df_values df cols =
     sequence (map (\<lambda>c. case map_of (num_columns df) c of
                           None \<Rightarrow> Inl KeyError | Some v \<Rightarrow> Inr v) cols)"

text \<open>
  \<open>regressor_beta.t()\<close>. A beta of rank one would give a regression component of rank
  one, which the model does not follow.
\<close>

definition beta_t :: "ndarray option \<Rightarrow> error + tensor" where
  "beta_t b =
     (case b of None \<Rightarrow> Inl AttributeError
      | Some (A1 x) \<Rightarrow> Inl OutsideModel
      | Some (A2 X) \<Rightarrow> Inr (transpose X))"

definition regression :: "self \<Rightarrow> attributes \<Rightarrow> dataframe \<Rightarrow> nat \<Rightarrow> error + tensor" where
  "regression slf a df output_len =
     (if regressor_col slf \<noteq> None \<and> length (regular_regressor_col slf) > 0
      then ebind (beta_t (regressor_beta a)) (\<lambda>regressor_beta_t.
           ebind (df_values df (the (regressor_col slf))) (\<lambda>regressor_matrix.
           ebind (matmul regressor_matrix regressor_beta_t) (\<lambda>regressor_component.
           Inr (transpose regressor_component))))
      else zeros (num_sample a) (int output_len))"

definition seasonality_init :: "self \<Rightarrow> attributes \<Rightarrow> int \<Rightarrow> error + tensor" where
  "seasonality_init slf a full_len =
     (if seasonality slf > 1
      then ebind (shape1 (seasonality_levels a)) (\<lambda>k.
             if full_len \<le> int k
             then ebind (mat (seasonality_levels a)) (\<lambda>X. Inr (slice_to X full_len))
             else ebind (zeros (num_sample a) (full_len - int k)) (\<lambda>seasonality_forecast_matrix.
                  ebind (mat (seasonality_levels a)) (\<lambda>X. cat1 X seasonality_forecast_matrix)))
      else zeros (num_sample a) full_len)"

subsection \<open>Trend component and the forecast loop (lines 356--416)\<close>

record loop_state =
  full_local_trend :: tensor
  full_global_trend :: tensor
  seasonality_component :: tensor
  last_local_trend_level :: vec
  last_local_trend_slope :: vec

text \<open>
  \<open>rvs idx\<close> is the vector \<open>nct.rvs(..., size=num_sample)\<close> returns in the iteration for
  \<open>idx\<close>: the sampler is the one source of randomness and is a parameter of the model.
\<close>

definition forecast_step ::
  "self \<Rightarrow> attributes \<Rightarrow> bool \<Rightarrow> (nat \<Rightarrow> vec) \<Rightarrow> int \<Rightarrow> nat \<Rightarrow> loop_state \<Rightarrow> error + loop_state" where
  "forecast_step slf a include_error rvs full_len idx st =
     ebind (vadd (Inr (last_local_trend_level st))
              (vmul (flatten (damped_factor a)) (Inr (last_local_trend_slope st))))
       (\<lambda>curr_local_trend.
     ebind (set_col (full_local_trend st) idx curr_local_trend) (\<lambda>flt1.
     ebind (if use_log_global_trend slf
            then vadd (as_vec (global_trend_level a))
                   (vmap torch_log (vmap (\<lambda>x. 1 + x)
                      (vmap (\<lambda>x. x * real idx) (as_vec (global_trend_slope a)))))
            else vadd (as_vec (global_trend_level a))
                   (vmap (\<lambda>x. x * (real idx - 1)) (as_vec (global_trend_slope a))))
       (\<lambda>g.
     ebind (set_col (full_global_trend st) idx g) (\<lambda>fgt1.
     ebind (if include_error then add_col flt1 idx (rvs idx) else Inr flt1) (\<lambda>flt2.
     ebind (vadd (vmul (as_vec (level_smoothing_factor a)) (col flt2 idx))
              (vmul (vmap (\<lambda>x. 1 - x) (as_vec (level_smoothing_factor a)))
                 (Inr curr_local_trend)))
       (\<lambda>new_local_trend_level.
     ebind (vadd (vmul (as_vec (slope_smoothing_factor a))
                    (vsub (Inr new_local_trend_level) (Inr (last_local_trend_level st))))
              (vmul (vmul (vmap (\<lambda>x. 1 - x) (as_vec (slope_smoothing_factor a)))
                       (flatten (damped_factor a)))
                 (Inr (last_local_trend_slope st))))
       (\<lambda>new_local_trend_slope.
     ebind (if seasonality slf > 1 \<and> int idx + seasonality slf < full_len
            then ebind (vadd (vmul (flatten (seasonality_smoothing_factor a))
                                (vsub (vadd (col flt2 idx) (col (seasonality_component st) idx))
                                   (Inr new_local_trend_level)))
                          (vmul (vmap (\<lambda>x. 1 - x) (flatten (seasonality_smoothing_factor a)))
                             (col (seasonality_component st) idx)))
                   (set_col (seasonality_component st) (nat (int idx + seasonality slf)))
            else Inr (seasonality_component st))
       (\<lambda>seas1.
     Inr \<lparr> full_local_trend = flt2,
           full_global_trend = fgt1,
           seasonality_component = seas1,
           last_local_trend_level = new_local_trend_level,
           last_local_trend_slope = new_local_trend_slope \<rparr>))))))))"

text \<open>\<open>for idx in idxs: st = step(idx, st)\<close>, stopping at the first exception.\<close>

fun for_loop :: "(nat \<Rightarrow> 's \<Rightarrow> error + 's) \<Rightarrow> nat list \<Rightarrow> 's \<Rightarrow> error + 's" where
  "for_loop step [] st = Inr st"
| "for_loop step (idx # idxs) st = ebind (step idx st) (for_loop step idxs)"

definition forecast_loop ::
  "self \<Rightarrow> attributes \<Rightarrow> bool \<Rightarrow> (nat \<Rightarrow> vec) \<Rightarrow> nat \<Rightarrow> int \<Rightarrow> loop_state \<Rightarrow> error + loop_state" where
  "forecast_loop slf a include_error rvs trained_len full_len st =
     for_loop (forecast_step slf a include_error rvs full_len) [trained_len ..< nat full_len] st"

text \<open>
  Lines 356--416: the three tensors \<open>(full_local_trend, full_global_trend,
  seasonality_component)\<close> as they are when the loop is over.
\<close>

definition trend ::
  "self \<Rightarrow> attributes \<Rightarrow> bool \<Rightarrow> (nat \<Rightarrow> vec) \<Rightarrow> nat \<Rightarrow> int \<Rightarrow> tensor
     \<Rightarrow> error + tensor \<times> tensor \<times> tensor" where
  "trend slf a include_error rvs trained_len full_len seas =
     (if full_len \<le> int trained_len
      then ebind (mat (local_trend a)) (\<lambda>lt.
           ebind (mat (global_trend a)) (\<lambda>gt.
           Inr (slice_to lt full_len, slice_to gt full_len, seas)))
      else ebind (zeros (num_sample a) (full_len - int trained_len)) (\<lambda>trend_forecast_init.
           ebind (ebind (mat (local_trend a)) (\<lambda>lt. cat1 (slice_to lt full_len) trend_forecast_init))
             (\<lambda>flt.
           ebind (ebind (mat (global_trend a)) (\<lambda>gt. cat1 (slice_to gt full_len) trend_forecast_init))
             (\<lambda>fgt.
           ebind (last_col (local_trend_levels a)) (\<lambda>level.
           ebind (last_col (local_trend_slopes a)) (\<lambda>slope.
           ebind (forecast_loop slf a include_error rvs trained_len full_len
                    \<lparr> full_local_trend = flt, full_global_trend = fgt,
                      seasonality_component = seas,
                      last_local_trend_level = level, last_local_trend_slope = slope \<rparr>)
             (\<lambda>st. Inr (full_local_trend st, full_global_trend st, seasonality_component st))))))))"

subsection \<open>From the frame to the components (lines 278--416)\<close>

record components =
  full_len :: int
  start :: loc
  regressor_component :: tensor
  final_seasonality :: tensor
  final_local_trend :: tensor
  final_global_trend :: tensor

definition components ::
  "self \<Rightarrow> attributes \<Rightarrow> dataframe \<Rightarrow> bool \<Rightarrow> (nat \<Rightarrow> vec) \<Rightarrow> error + components" where
  "components slf a df include_error rvs =
     ebind (prediction_df_meta df) (\<lambda>pm.
       if \<not> is_ordered_datetime (date_array pm) then Inl IllegalArgument
       else if prediction_start pm < training_start (training_df_meta slf)
       then Inl PredictionException
       else
         (let trained_len = training_df_length (training_df_meta slf);
              output_len = df_length pm
          in ebind (horizon (training_df_meta slf) pm) (\<lambda>(n_forecast_steps, st).
             let fl = int trained_len + n_forecast_steps
             in ebind (regression slf a df output_len) (\<lambda>reg.
                ebind (seasonality_init slf a fl) (\<lambda>seas.
                ebind (trend slf a include_error rvs trained_len fl seas) (\<lambda>(flt, fgt, seas1).
                Inr \<lparr> full_len = fl, start = st, regressor_component = reg,
                      final_seasonality = seas1, final_local_trend = flt,
                      final_global_trend = fgt \<rparr>))))))"

subsection \<open>Combining the components (lines 422--462)\<close>

definition combine :: "self \<Rightarrow> components \<Rightarrow> bool \<Rightarrow> error + (string \<times> tensor) list" where
  "combine slf c decompose =
     (case start c of
        LocMany \<Rightarrow> Inl TypeError
      | Loc k \<Rightarrow>
          ebind (tensor_add (slice_from (final_global_trend c) k)
                   (slice_from (final_local_trend c) k)) (\<lambda>trend_component.
          ebind (ebind (tensor_add trend_component (slice_from (final_seasonality c) k))
                   (\<lambda>x. tensor_add x (regressor_component c))) (\<lambda>pred_array.
          (let tr = (if is_multiplicative slf then map (map torch_exp) else id);
               sc = (if auto_scale slf then map (map (inverse_transform slf)) else id)
           in Inr (if decompose
                   then [(''prediction'', sc (tr pred_array)),
                         (''trend'', sc (tr trend_component)),
                         (''seasonality'', tr (slice_from (final_seasonality c) k)),
                         (''regression'', tr (regressor_component c))]
                   else [(''prediction'', sc (tr pred_array))])))))"

subsection \<open>The call on the store\<close>

text \<open>
  Lines 269--275: \<open>df.copy()\<close> allocates a copy of the caller's frame, and the two parent
  methods are called on the copy. With the default \<open>df=None\<close> the call \<open>df.copy()\<close> raises.
  A \<open>df\<close> that is not a data frame, or a reference that is not in the store, is
  \<open>OutsideModel\<close>; so is a parent method that returns something other than a frame.
\<close>

definition df_copy :: "store \<Rightarrow> addr \<Rightarrow> store \<times> (error + addr)" where
  "df_copy s a =
     (if a < length s
      then (case s ! a of
              Frame f \<Rightarrow> (case alloc s (Frame f) of (s1, a1) \<Rightarrow> (s1, Inr a1))
            | Array v \<Rightarrow> (s, Inl OutsideModel))
      else (s, Inl OutsideModel))"

definition prepare_df :: "self \<Rightarrow> store \<Rightarrow> addr option \<Rightarrow> store \<times> (error + addr)" where
  "prepare_df slf s df =
     (case df of
        None \<Rightarrow> (s, Inl AttributeError)
      | Some a \<Rightarrow>
          (case df_copy s a of
             (s1, Inl e) \<Rightarrow> (s1, Inl e)
           | (s1, Inr a1) \<Rightarrow>
               (case (if auto_scale slf then scale_df slf s1 a1 else (s1, Inr a1)) of
                  (s2, Inl e) \<Rightarrow> (s2, Inl e)
                | (s2, Inr a2) \<Rightarrow>
                    (if is_multiplicative slf then log_transform_df slf s2 a2
                     else (s2, Inr a2)))))"

definition frame_at :: "store \<Rightarrow> addr \<Rightarrow> error + dataframe" where
  "frame_at s a =
     (if a < length s
      then (case s ! a of Frame f \<Rightarrow> Inr f | Array v \<Rightarrow> Inl OutsideModel)
      else Inl OutsideModel)"

text \<open>
  When seasonality is on and the combined length fits the stored seasonality levels,
  \<open>seasonality_component\<close> is the view \<open>seasonality_levels[:, :full_len]\<close> of the tensor that
  shares its memory with the copied array: the loop's writes to it land in that array.
  \<open>write_back\<close> puts the columns of the view, as they are after the loop, into the array
  of the copy.
\<close>

definition write_back ::
  "self \<Rightarrow> (param \<times> addr) list \<Rightarrow> attributes \<Rightarrow> components \<Rightarrow> store \<Rightarrow> store" where
  "write_back slf model a c s =
     (if seasonality slf > 1
      then (case (map_of model SEASONALITY_LEVELS, seasonality_levels a) of
              (Some ad, Some (A2 X)) \<Rightarrow>
                (if full_len c \<le> int (length X)
                 then s[ad := Array (A2 (final_seasonality c @ drop (length (final_seasonality c)) X))]
                 else s)
            | _ \<Rightarrow> s)
      else s)"

text \<open>
  \<open>_predict(self, df, include_error, decompose)\<close>: the store after the call, and the
  dictionary returned or the exception raised. When the loop itself raises, the store
  given back is the one before the loop: what the unfinished loop wrote went to objects
  of this call only.
\<close>

definition predict ::
  "self \<Rightarrow> store \<Rightarrow> addr option \<Rightarrow> bool \<Rightarrow> bool \<Rightarrow> (nat \<Rightarrow> vec)
     \<Rightarrow> store \<times> (error + (string \<times> tensor) list)" where
  "predict slf s df include_error decompose rvs =
     (case deepcopy s (posterior_state slf) of (s1, model) \<Rightarrow>
        (case ebind (sequence (map (from_numpy s1) model)) (model_attributes slf) of
           Inl e \<Rightarrow> (s1, Inl e)
         | Inr a \<Rightarrow>
             (case prepare_df slf s1 df of
                (s2, Inl e) \<Rightarrow> (s2, Inl e)
              | (s2, Inr dfa) \<Rightarrow>
                  (case ebind (frame_at s2 dfa) (\<lambda>f. components slf a f include_error rvs) of
                     Inl e \<Rightarrow> (s2, Inl e)
                   | Inr c \<Rightarrow> (write_back slf model a c s2, combine slf c decompose)))))"

section \<open>Shapes, and the recursion as the specification words it\<close>

subsection \<open>Shapes\<close>

text \<open>
  A tensor is \<open>shaped n F\<close> when it has \<open>F\<close> columns of \<open>n\<close> draws each. The engine's inputs
  are well shaped when the per-draw parameters are vectors over the same \<open>n\<close> draws;
  \<open>engine_params\<close> names those vectors, and \<open>state_shaped\<close> says the same of the loop's state.
\<close>

definition shaped :: "nat \<Rightarrow> nat \<Rightarrow> tensor \<Rightarrow> bool" where
  "shaped n F X \<longleftrightarrow> length X = F \<and> list_all (\<lambda>c. length c = n) X"

definition engine_params ::
  "self \<Rightarrow> attributes \<Rightarrow> nat \<Rightarrow> vec \<Rightarrow> vec \<Rightarrow> vec \<Rightarrow> vec \<Rightarrow> vec \<Rightarrow> vec \<Rightarrow> bool" where
  "engine_params slf a n dv lsf ssf gl gs sm \<longleftrightarrow>
     flatten (damped_factor a) = Inr dv \<and> length dv = n \<and>
     as_vec (level_smoothing_factor a) = Inr lsf \<and> length lsf = n \<and>
     as_vec (slope_smoothing_factor a) = Inr ssf \<and> length ssf = n \<and>
     as_vec (global_trend_level a) = Inr gl \<and> length gl = n \<and>
     as_vec (global_trend_slope a) = Inr gs \<and> length gs = n \<and>
     (seasonality slf > 1 \<longrightarrow>
        flatten (seasonality_smoothing_factor a) = Inr sm \<and> length sm = n)"

definition state_shaped :: "nat \<Rightarrow> nat \<Rightarrow> loop_state \<Rightarrow> bool" where
  "state_shaped n F st \<longleftrightarrow>
     shaped n F (full_local_trend st) \<and> shaped n F (full_global_trend st) \<and>
     shaped n F (seasonality_component st) \<and>
     length (last_local_trend_level st) = n \<and> length (last_local_trend_slope st) = n"

subsection \<open>The recursion of the specification, for one draw\<close>

text \<open>
  Section 4.3 of the specification, read for a single posterior draw with scalar state
  \<open>(last_level, last_slope)\<close>: the damped local contribution, the level update towards
  the pre-noise value, and the slope update. \<open>spec_state \<dots> t0 k\<close> is the state after \<open>k\<close>
  steps from index \<open>t0\<close>; \<open>spec_global\<close> is the global trend of step 2. These follow the
  words of the specification and are what the vectorised loop of the source is compared
  with. \<open>noise_of\<close> is the noise of draw \<open>i\<close> at step \<open>t\<close>: the sampler's value when
  errors are included, and nothing otherwise.
\<close>

definition spec_step :: "real \<Rightarrow> real \<Rightarrow> real \<Rightarrow> real \<Rightarrow> real \<times> real \<Rightarrow> real \<times> real" where
  "spec_step damped lev_sm slp_sm noise lb =
     (let last_level = fst lb; last_slope = snd lb;
          local = last_level + damped * last_slope;
          new_level = lev_sm * (local + noise) + (1 - lev_sm) * local;
          new_slope = slp_sm * (new_level - last_level) + (1 - slp_sm) * damped * last_slope
      in (new_level, new_slope))"

fun spec_state ::
  "real \<Rightarrow> real \<Rightarrow> real \<Rightarrow> (nat \<Rightarrow> real) \<Rightarrow> nat \<Rightarrow> nat \<Rightarrow> real \<times> real \<Rightarrow> real \<times> real" where
  "spec_state damped lev_sm slp_sm noise t0 0 lb = lb"
| "spec_state damped lev_sm slp_sm noise t0 (Suc k) lb =
     spec_step damped lev_sm slp_sm (noise (t0 + k)) (spec_state damped lev_sm slp_sm noise t0 k lb)"

definition spec_local :: "real \<Rightarrow> real \<times> real \<Rightarrow> real" where
  "spec_local damped lb = fst lb + damped * snd lb"

definition spec_global :: "bool \<Rightarrow> real \<Rightarrow> real \<Rightarrow> nat \<Rightarrow> real" where
  "spec_global log_mode level slope t =
     (if log_mode then level + torch_log (1 + slope * real t) else level + slope * (real t - 1))"

definition noise_of :: "bool \<Rightarrow> (nat \<Rightarrow> vec) \<Rightarrow> nat \<Rightarrow> nat \<Rightarrow> real" where
  "noise_of include_error rvs i t = (if include_error then rvs t ! i else 0)"

subsection \<open>What the parent's methods may do\<close>

text \<open>
  \<open>_scale_df\<close> and \<open>_log_transform_df\<close> are parameters. Two properties of such a method are
  used as hypotheses. It is \<open>local_method\<close> when, given a frame of the store, it leaves
  every other object of the store as it is (it may change the frame it was given, and
  allocate), and returns the reference it was given or a fresh one. It is
  \<open>content_determined\<close> when the exception it raises, or the content of the frame it
  returns, depends on the content of the frame it was given only. \<open>prepared\<close> is the frame
  that reaches line 278.
\<close>

definition local_method :: "(store \<Rightarrow> addr \<Rightarrow> store \<times> (error + addr)) \<Rightarrow> bool" where
  "local_method h \<longleftrightarrow>
     (\<forall>s a. a < length s \<longrightarrow>
        length s \<le> length (fst (h s a)) \<and>
        (\<forall>b<length s. b \<noteq> a \<longrightarrow> fst (h s a) ! b = s ! b) \<and>
        (\<forall>a'. snd (h s a) = Inr a' \<longrightarrow> a' < length (fst (h s a)) \<and> (a' = a \<or> length s \<le> a')))"

definition same_outcome :: "store \<times> (error + addr) \<Rightarrow> store \<times> (error + addr) \<Rightarrow> bool" where
  "same_outcome x y \<longleftrightarrow>
     (case (snd x, snd y) of
        (Inl e, Inl e') \<Rightarrow> e = e'
      | (Inr b, Inr b') \<Rightarrow>
          (case frame_at (fst x) b of
             Inr g \<Rightarrow> frame_at (fst y) b' = Inr g
           | Inl e \<Rightarrow> False)
      | _ \<Rightarrow> False)"

definition content_determined :: "(store \<Rightarrow> addr \<Rightarrow> store \<times> (error + addr)) \<Rightarrow> bool" where
  "content_determined h \<longleftrightarrow>
     (\<forall>s a s' a' f. frame_at s a = Inr f \<and> frame_at s' a' = Inr f \<longrightarrow>
        same_outcome (h s a) (h s' a'))"

definition prepared :: "self \<Rightarrow> store \<Rightarrow> addr option \<Rightarrow> error + dataframe" where
  "prepared slf s df =
     (case prepare_df slf s df of (s2, Inl e) \<Rightarrow> Inl e | (s2, Inr dfa) \<Rightarrow> frame_at s2 dfa)"

subsection \<open>Exceptions of the date checks\<close>

text \<open>
  \<open>date_error\<close> singles out the two exceptions \<open>_predict\<close> raises itself; a result is
  \<open>quiet\<close> when it is not one of them.
\<close>

definition date_error :: "error \<Rightarrow> bool" where
  "date_error e \<longleftrightarrow> e = IllegalArgument \<or> e = PredictionException"

definition quiet :: "error + 'a \<Rightarrow> bool" where
  "quiet m \<longleftrightarrow> (case m of Inl e \<Rightarrow> \<not> date_error e | Inr x \<Rightarrow> True)"

subsection \<open>Example inputs\<close>

text \<open>
  Two draws, two training points (dates 1 and 2), seasonality of period two, and a loop
  state spanning a combined length of five. \<open>ex_store ds\<close> holds the posterior arrays at
  the references \<open>ex_self\<close> names, and at reference 10 the caller's frame with date column
  \<open>ds\<close>; \<open>ex_attributes\<close> is what lines 207--261 read from it.
\<close>

definition ex_attributes :: attributes where
  "ex_attributes =
     \<lparr> num_sample = 2,
       seasonality_levels = Some (A2 [[1, 2], [3, 4], [5, 6], [7, 8], [9, 10]]),
       seasonality_smoothing_factor = Some (A2 [[1/2, 1/4]]),
       slope_smoothing_factor = Some (A1 [1/2, 1/4]),
       level_smoothing_factor = Some (A1 [1/2, 3/4]),
       local_trend_levels = Some (A2 [[10, 20], [12, 24]]),
       local_trend_slopes = Some (A2 [[1, 2], [2, 4]]),
       local_trend = Some (A2 [[10, 20], [12, 24]]),
       damped_factor = Some (A1 [1/2, 1/2]),
       global_trend_level = Some (A1 [7, 8]),
       global_trend_slope = Some (A1 [0, 3]),
       global_trend = Some (A2 [[7, 8], [7, 11]]),
       regressor_beta = None \<rparr>"

definition ex_training_meta :: training_meta where
  "ex_training_meta =
     \<lparr> training_start = 1, training_end = 2, training_df_length = 2,
       training_date_array = [1, 2] \<rparr>"

definition ex_self :: self where
  "ex_self =
     \<lparr> regressor_col = None, regular_regressor_col = [], is_multiplicative = False,
       auto_scale = False, seasonality = 2, use_log_global_trend = False,
       damped_factor_fixed = 1/2, training_df_meta = ex_training_meta,
       posterior_state =
         [(LOCAL_TREND_LEVELS, 0), (LOCAL_TREND_SLOPES, 1), (LOCAL_TREND, 2), (GLOBAL_TREND, 3),
          (LEVEL_SMOOTHING_FACTOR, 4), (SLOPE_SMOOTHING_FACTOR, 5), (GLOBAL_TREND_LEVEL, 6),
          (GLOBAL_TREND_SLOPE, 7), (SEASONALITY_LEVELS, 8), (SEASONALITY_SMOOTHING_FACTOR, 9)],
       scale_df = (\<lambda>s a. (s, Inr a)), log_transform_df = (\<lambda>s a. (s, Inr a)),
       inverse_transform = (\<lambda>x. x) \<rparr>"

definition ex_df :: "int list \<Rightarrow> dataframe" where
  "ex_df ds = \<lparr> date_values = ds, num_columns = [] \<rparr>"

definition ex_pm :: "int list \<Rightarrow> prediction_meta" where
  "ex_pm ds = \<lparr> date_array = ds, df_length = length ds, prediction_start = hd ds,
                prediction_end = last ds \<rparr>"

definition ex_store :: "int list \<Rightarrow> store" where
  "ex_store ds =
     [Array (A2 [[10, 20], [12, 24]]), Array (A2 [[1, 2], [2, 4]]),
      Array (A2 [[10, 20], [12, 24]]), Array (A2 [[7, 8], [7, 11]]),
      Array (A1 [1/2, 3/4]), Array (A1 [1/2, 1/4]), Array (A1 [7, 8]), Array (A1 [0, 3]),
      Array (A2 [[1, 2], [3, 4], [5, 6], [7, 8], [9, 10]]), Array (A2 [[1/2, 1/4]]),
      Frame (ex_df ds)]"

definition ex_state :: loop_state where
  "ex_state =
     \<lparr> full_local_trend = [[10, 20], [12, 24], [0, 0], [0, 0], [0, 0]],
       full_global_trend = [[7, 8], [7, 11], [0, 0], [0, 0], [0, 0]],
       seasonality_component = [[1, 2], [3, 4], [5, 6], [7, 8], [0, 0]],
       last_local_trend_level = [12, 24],
       last_local_trend_slope = [2, 4] \<rparr>"

definition ex_rvs :: "nat \<Rightarrow> vec" where
  "ex_rvs t = [1, real t]"

text \<open>
  One draw, five training points (dates 1 to 5), no seasonality, additive, no scaling.
  \<open>ex5_store ds\<close> holds the posterior arrays and, at reference 8, the caller's frame
  with date column \<open>ds\<close>. The stored local trend is \<open>10, 20, 30, 40, 50\<close> and the stored
  global trend \<open>100, 200, 300, 400, 500\<close>, so the in-sample value at position \<open>j\<close> is
  \<open>110 * (j + 1)\<close>.
\<close>

definition ex5_self :: self where
  "ex5_self =
     \<lparr> regressor_col = None, regular_regressor_col = [], is_multiplicative = False,
       auto_scale = False, seasonality = 0, use_log_global_trend = False,
       damped_factor_fixed = 1/2,
       training_df_meta =
         \<lparr> training_start = 1, training_end = 5, training_df_length = 5,
           training_date_array = [1, 2, 3, 4, 5] \<rparr>,
       posterior_state =
         [(LOCAL_TREND_LEVELS, 0), (LOCAL_TREND_SLOPES, 1), (LOCAL_TREND, 2), (GLOBAL_TREND, 3),
          (LEVEL_SMOOTHING_FACTOR, 4), (SLOPE_SMOOTHING_FACTOR, 5), (GLOBAL_TREND_LEVEL, 6),
          (GLOBAL_TREND_SLOPE, 7)],
       scale_df = (\<lambda>s a. (s, Inr a)), log_transform_df = (\<lambda>s a. (s, Inr a)),
       inverse_transform = (\<lambda>x. x) \<rparr>"

definition ex5_store :: "int list \<Rightarrow> store" where
  "ex5_store ds =
     [Array (A2 [[10], [20], [30], [40], [50]]), Array (A2 [[1], [1], [1], [1], [2]]),
      Array (A2 [[10], [20], [30], [40], [50]]), Array (A2 [[100], [200], [300], [400], [500]]),
      Array (A1 [1/2]), Array (A1 [1/2]), Array (A1 [7]), Array (A1 [3]),
      Frame (ex_df ds)]"

text \<open>
  The same model with one regressor \<open>x\<close>, whose beta draw is \<open>1/2\<close>, and a frame for the
  two future dates 6 and 7 with \<open>x = 2, 4\<close>. In \<open>ex6_self_positive\<close> the regressor has sign
  \<open>+\<close>: the parent class then lists it in \<open>positive_regressor_col\<close>, leaves
  \<open>regular_regressor_col\<close> empty, and the sampler stores its beta under
  \<open>POSITIVE_REGRESSOR_BETA\<close>. In \<open>ex6_self_regular\<close> it has sign \<open>=\<close>.
\<close>

definition ex6_self_positive :: self where
  "ex6_self_positive =
     ex5_self \<lparr> regressor_col := Some [''x''], regular_regressor_col := [],
                posterior_state := posterior_state ex5_self @ [(POSITIVE_REGRESSOR_BETA, 8)] \<rparr>"

definition ex6_self_regular :: self where
  "ex6_self_regular =
     ex5_self \<lparr> regressor_col := Some [''x''], regular_regressor_col := [''x''],
                posterior_state := posterior_state ex5_self @ [(REGULAR_REGRESSOR_BETA, 8)] \<rparr>"

definition ex6_store :: "tensor \<Rightarrow> store" where
  "ex6_store beta =
     [Array (A2 [[10], [20], [30], [40], [50]]), Array (A2 [[1], [1], [1], [1], [2]]),
      Array (A2 [[10], [20], [30], [40], [50]]), Array (A2 [[100], [200], [300], [400], [500]]),
      Array (A1 [1/2]), Array (A1 [1/2]), Array (A1 [7]), Array (A1 [3]),
      Array (A2 beta),
      Frame \<lparr> date_values = [6, 7], num_columns = [(''x'', [2, 4])] \<rparr>]"

text \<open>
  A multiplicative model whose \<open>_log_transform_df\<close> takes the logarithm of every numeric
  column of the frame it is given, in place.
\<close>

definition ex_log_transform :: "store \<Rightarrow> addr \<Rightarrow> store \<times> (error + addr)" where
  "ex_log_transform s a =
     (case s ! a of
        Frame f \<Rightarrow>
          (s[a := Frame (f\<lparr> num_columns :=
                             map (\<lambda>kv. (fst kv, map torch_log (snd kv))) (num_columns f) \<rparr>)],
           Inr a)
      | Array v \<Rightarrow> (s, Inl OutsideModel))"

definition ex10_self :: self where
  "ex10_self = ex6_self_regular \<lparr> is_multiplicative := True, log_transform_df := ex_log_transform \<rparr>"

section \<open>Properties\<close>

subsection \<open>Results and vectors\<close>

lemma ebind_Inr [simp]: "ebind (Inr x) f = f x"
  by (simp add: ebind_def)

lemma ebind_Inl [simp]: "ebind (Inl e) f = Inl e"
  by (simp add: ebind_def)

lemma ebind_eq_Inr: "ebind m f = Inr y \<longleftrightarrow> (\<exists>x. m = Inr x \<and> f x = Inr y)"
  by (cases m) simp_all

lemma lift2_Inr: "length xs = length ys \<Longrightarrow> lift2 f (Inr xs) (Inr ys) = Inr (map2 f xs ys)"
  by (simp add: lift2_def broadcast2_def)

lemma vadd_Inr: "length xs = length ys \<Longrightarrow> vadd (Inr xs) (Inr ys) = Inr (map2 (+) xs ys)"
  by (simp add: vadd_def lift2_Inr)

lemma vsub_Inr: "length xs = length ys \<Longrightarrow> vsub (Inr xs) (Inr ys) = Inr (map2 (-) xs ys)"
  by (simp add: vsub_def lift2_Inr)

lemma vmul_Inr: "length xs = length ys \<Longrightarrow> vmul (Inr xs) (Inr ys) = Inr (map2 (*) xs ys)"
  by (simp add: vmul_def lift2_Inr)

lemma vmap_Inr: "vmap f (Inr xs) = Inr (map f xs)"
  by (simp add: vmap_def)

subsection \<open>Columns of a shaped tensor\<close>

lemma shaped_nth: "shaped n F X \<Longrightarrow> j < F \<Longrightarrow> length (X ! j) = n"
  by (simp add: shaped_def list_all_length)

lemma shaped_length: "shaped n F X \<Longrightarrow> length X = F"
  by (simp add: shaped_def)

lemma shaped_update: "shaped n F X \<Longrightarrow> length v = n \<Longrightarrow> shaped n F (X[j := v])"
  by (cases "j < length X") (auto simp: shaped_def list_all_length nth_list_update)

lemma set_col_shaped:
  "shaped n F X \<Longrightarrow> j < F \<Longrightarrow> length v = n \<Longrightarrow> set_col X j v = Inr (X[j := v])"
  by (simp add: set_col_def fit_def shaped_nth shaped_length)

lemma add_col_shaped:
  "shaped n F X \<Longrightarrow> j < F \<Longrightarrow> length v = n \<Longrightarrow> add_col X j v = Inr (X[j := map2 (+) (X ! j) v])"
  by (simp add: add_col_def fit_def shaped_nth shaped_length)

lemma col_shaped: "shaped n F X \<Longrightarrow> j < F \<Longrightarrow> col X j = Inr (X ! j)"
  by (simp add: col_def shaped_length)

subsection \<open>One step of the forecast loop\<close>

text \<open>On well-shaped inputs a step raises nothing, and its result is explicit.\<close>

lemma forecast_step_shaped:
  fixes slf a include_error rvs full_len idx st n F dv lsf ssf gl gs sm
  defines "level \<equiv> last_local_trend_level st"
      and "slope \<equiv> last_local_trend_slope st"
  defines "cur \<equiv> map2 (+) level (map2 (*) dv slope)"
  defines "c \<equiv> (if include_error then map2 (+) cur (rvs idx) else cur)"
  defines "g \<equiv> (if use_log_global_trend slf
                  then map2 (+) gl (map torch_log (map (\<lambda>x. 1 + x) (map (\<lambda>x. x * real idx) gs)))
                  else map2 (+) gl (map (\<lambda>x. x * (real idx - 1)) gs))"
  defines "nl \<equiv> map2 (+) (map2 (*) lsf c) (map2 (*) (map (\<lambda>x. 1 - x) lsf) cur)"
  defines "ns \<equiv> map2 (+) (map2 (*) ssf (map2 (-) nl level))
                   (map2 (*) (map2 (*) (map (\<lambda>x. 1 - x) ssf) dv) slope)"
  defines "sidx \<equiv> seasonality_component st ! idx"
  defines "v \<equiv> map2 (+) (map2 (*) sm (map2 (-) (map2 (+) c sidx) nl))
                  (map2 (*) (map (\<lambda>x. 1 - x) sm) sidx)"
  assumes d: "flatten (damped_factor a) = Inr dv" "length dv = n"
      and l: "as_vec (level_smoothing_factor a) = Inr lsf" "length lsf = n"
      and s: "as_vec (slope_smoothing_factor a) = Inr ssf" "length ssf = n"
      and gl: "as_vec (global_trend_level a) = Inr gl" "length gl = n"
      and gs: "as_vec (global_trend_slope a) = Inr gs" "length gs = n"
      and sm: "seasonality slf > 1 \<Longrightarrow> flatten (seasonality_smoothing_factor a) = Inr sm \<and> length sm = n"
      and rv: "include_error \<Longrightarrow> length (rvs idx) = n"
      and sh: "shaped n F (full_local_trend st)" "shaped n F (full_global_trend st)"
              "shaped n F (seasonality_component st)"
      and st: "length (last_local_trend_level st) = n" "length (last_local_trend_slope st) = n"
      and idx: "idx < F" "F = nat full_len"
  shows "forecast_step slf a include_error rvs full_len idx st =
           Inr \<lparr> full_local_trend = (full_local_trend st)[idx := c],
                 full_global_trend = (full_global_trend st)[idx := g],
                 seasonality_component =
                   (if seasonality slf > 1 \<and> int idx + seasonality slf < full_len
                    then (seasonality_component st)[nat (int idx + seasonality slf) := v]
                    else seasonality_component st),
                 last_local_trend_level = nl,
                 last_local_trend_slope = ns \<rparr>"
proof -
  have lc: "length cur = n" by (simp add: cur_def level_def slope_def d st)
  have lcc: "length c = n" by (simp add: c_def lc rv)
  have lg: "length g = n" by (simp add: g_def gl gs)
  have lnl: "length nl = n" by (simp add: nl_def l lcc lc)
  have lsi: "length sidx = n" using sh(3) idx(1) by (simp add: sidx_def shaped_nth)
  have e1: "vadd (Inr level) (vmul (flatten (damped_factor a)) (Inr slope)) = Inr cur"
    by (simp add: d vmul_Inr vadd_Inr level_def slope_def st cur_def)
  have e2: "set_col (full_local_trend st) idx cur = Inr ((full_local_trend st)[idx := cur])"
    using sh(1) idx(1) lc by (rule set_col_shaped)
  have e3: "(if use_log_global_trend slf
            then vadd (as_vec (global_trend_level a))
                   (vmap torch_log (vmap (\<lambda>x. 1 + x)
                      (vmap (\<lambda>x. x * real idx) (as_vec (global_trend_slope a)))))
            else vadd (as_vec (global_trend_level a))
                   (vmap (\<lambda>x. x * (real idx - 1)) (as_vec (global_trend_slope a)))) = Inr g"
    by (simp add: gl gs vmap_Inr vadd_Inr g_def)
  have e4: "set_col (full_global_trend st) idx g = Inr ((full_global_trend st)[idx := g])"
    using sh(2) idx(1) lg by (rule set_col_shaped)
  have sh1: "shaped n F ((full_local_trend st)[idx := cur])"
    using sh(1) lc by (rule shaped_update)
  have e5: "(if include_error then add_col ((full_local_trend st)[idx := cur]) idx (rvs idx)
             else Inr ((full_local_trend st)[idx := cur])) = Inr ((full_local_trend st)[idx := c])"
    using sh1 idx(1) sh(1) by (simp add: add_col_shaped rv c_def shaped_length)
  have sh2: "shaped n F ((full_local_trend st)[idx := c])"
    using sh(1) lcc by (rule shaped_update)
  have c5: "col ((full_local_trend st)[idx := c]) idx = Inr c"
    using sh2 idx(1) sh(1) by (simp add: col_shaped shaped_length)
  have e6: "vadd (vmul (as_vec (level_smoothing_factor a)) (col ((full_local_trend st)[idx := c]) idx))
              (vmul (vmap (\<lambda>x. 1 - x) (as_vec (level_smoothing_factor a))) (Inr cur)) = Inr nl"
    by (simp add: c5 l vmul_Inr vmap_Inr vadd_Inr lcc lc nl_def)
  have e7: "vadd (vmul (as_vec (slope_smoothing_factor a)) (vsub (Inr nl) (Inr level)))
              (vmul (vmul (vmap (\<lambda>x. 1 - x) (as_vec (slope_smoothing_factor a)))
                       (flatten (damped_factor a))) (Inr slope)) = Inr ns"
    by (simp add: s d vsub_Inr vmul_Inr vmap_Inr vadd_Inr lnl level_def slope_def st ns_def)
  have c8: "col (seasonality_component st) idx = Inr sidx"
    using sh(3) idx(1) by (simp add: col_shaped sidx_def)
  have e8: "seasonality slf > 1 \<Longrightarrow> int idx + seasonality slf < full_len \<Longrightarrow>
      ebind (vadd (vmul (flatten (seasonality_smoothing_factor a))
                                (vsub (vadd (col ((full_local_trend st)[idx := c]) idx) (col (seasonality_component st) idx))
                                   (Inr nl)))
                          (vmul (vmap (\<lambda>x. 1 - x) (flatten (seasonality_smoothing_factor a)))
                             (col (seasonality_component st) idx)))
                   (set_col (seasonality_component st) (nat (int idx + seasonality slf)))
       = Inr ((seasonality_component st)[nat (int idx + seasonality slf) := v])"
  proof -
    assume p: "seasonality slf > 1" "int idx + seasonality slf < full_len"
    have lv: "length v = n" by (simp add: v_def sm[OF p(1)] lcc lsi lnl)
    have j: "nat (int idx + seasonality slf) < F" using p idx by simp
    have "set_col (seasonality_component st) (nat (int idx + seasonality slf)) v
          = Inr ((seasonality_component st)[nat (int idx + seasonality slf) := v])"
      using sh(3) j lv by (rule set_col_shaped)
    then show ?thesis
      by (simp add: c5 c8 sm[OF p(1)] vadd_Inr vsub_Inr vmul_Inr vmap_Inr lcc lsi lnl v_def)
  qed
  show ?thesis
    unfolding forecast_step_def
    apply (simp only: e1[unfolded level_def slope_def] ebind_Inr e2 e3 e4 e5 e6 e7[unfolded level_def slope_def])
    apply (cases "seasonality slf > 1 \<and> int idx + seasonality slf < full_len")
     apply (simp add: e8)
    apply (simp only: if_False ebind_Inr)
    done
qed

text \<open>The same step, read entry by entry against the recursion of the specification.\<close>

lemma forecast_step_elem:
  assumes P: "engine_params slf a n dv lsf ssf gl gs sm"
      and rv: "include_error \<longrightarrow> length (rvs idx) = n"
      and S: "state_shaped n F st"
      and idx: "idx < F" "F = nat fl"
  shows "\<exists>st' c g w.
           forecast_step slf a include_error rvs fl idx st = Inr st' \<and>
           state_shaped n F st' \<and>
           full_local_trend st' = (full_local_trend st)[idx := c] \<and> length c = n \<and>
           (\<forall>i<n. c ! i = spec_local (dv ! i) (last_local_trend_level st ! i, last_local_trend_slope st ! i)
                           + noise_of include_error rvs i idx) \<and>
           full_global_trend st' = (full_global_trend st)[idx := g] \<and> length g = n \<and>
           (\<forall>i<n. g ! i = spec_global (use_log_global_trend slf) (gl ! i) (gs ! i) idx) \<and>
           (\<forall>i<n. (last_local_trend_level st' ! i, last_local_trend_slope st' ! i) =
                   spec_step (dv ! i) (lsf ! i) (ssf ! i) (noise_of include_error rvs i idx)
                     (last_local_trend_level st ! i, last_local_trend_slope st ! i)) \<and>
           seasonality_component st' =
             (if seasonality slf > 1 \<and> int idx + seasonality slf < fl
              then (seasonality_component st)[nat (int idx + seasonality slf) := w]
              else seasonality_component st) \<and>
           length w = n \<and>
           (seasonality slf > 1 \<longrightarrow>
             (\<forall>i<n. w ! i = sm ! i * (c ! i + seasonality_component st ! idx ! i
                                        - last_local_trend_level st' ! i)
                            + (1 - sm ! i) * seasonality_component st ! idx ! i))"
proof -
  let ?level = "last_local_trend_level st" and ?slope = "last_local_trend_slope st"
  define cur where "cur = map2 (+) ?level (map2 (*) dv ?slope)"
  define c where "c = (if include_error then map2 (+) cur (rvs idx) else cur)"
  define g where "g = (if use_log_global_trend slf
                  then map2 (+) gl (map torch_log (map (\<lambda>x. 1 + x) (map (\<lambda>x. x * real idx) gs)))
                  else map2 (+) gl (map (\<lambda>x. x * (real idx - 1)) gs))"
  define nl where "nl = map2 (+) (map2 (*) lsf c) (map2 (*) (map (\<lambda>x. 1 - x) lsf) cur)"
  define ns where "ns = map2 (+) (map2 (*) ssf (map2 (-) nl ?level))
                   (map2 (*) (map2 (*) (map (\<lambda>x. 1 - x) ssf) dv) ?slope)"
  define sidx where "sidx = seasonality_component st ! idx"
  define v where "v = map2 (+) (map2 (*) sm (map2 (-) (map2 (+) c sidx) nl))
                  (map2 (*) (map (\<lambda>x. 1 - x) sm) sidx)"
  define w where "w = (if seasonality slf > 1 then v else replicate n 0)"
  define st' where "st' = \<lparr> full_local_trend = (full_local_trend st)[idx := c],
                 full_global_trend = (full_global_trend st)[idx := g],
                 seasonality_component =
                   (if seasonality slf > 1 \<and> int idx + seasonality slf < fl
                    then (seasonality_component st)[nat (int idx + seasonality slf) := v]
                    else seasonality_component st),
                 last_local_trend_level = nl,
                 last_local_trend_slope = ns \<rparr>"
  have d: "flatten (damped_factor a) = Inr dv" "length dv = n"
   and l: "as_vec (level_smoothing_factor a) = Inr lsf" "length lsf = n"
   and s: "as_vec (slope_smoothing_factor a) = Inr ssf" "length ssf = n"
   and gl: "as_vec (global_trend_level a) = Inr gl" "length gl = n"
   and gs: "as_vec (global_trend_slope a) = Inr gs" "length gs = n"
   and sm: "seasonality slf > 1 \<Longrightarrow> flatten (seasonality_smoothing_factor a) = Inr sm \<and> length sm = n"
    using P by (simp_all add: engine_params_def)
  have sh: "shaped n F (full_local_trend st)" "shaped n F (full_global_trend st)"
           "shaped n F (seasonality_component st)"
   and ll: "length ?level = n" "length ?slope = n"
    using S by (simp_all add: state_shaped_def)
  have step: "forecast_step slf a include_error rvs fl idx st = Inr st'"
    unfolding st'_def v_def sidx_def ns_def nl_def g_def c_def cur_def
    by (rule forecast_step_shaped[where n = n and F = F])
       (insert sh idx(1), simp_all add: d l s gl gs sm rv ll idx(2))
  have lcur: "length cur = n" by (simp add: cur_def d ll)
  have lc: "length c = n" by (simp add: c_def lcur rv)
  have lg: "length g = n" by (simp add: g_def gl gs)
  have lnl: "length nl = n" by (simp add: nl_def l lc lcur)
  have lns: "length ns = n" by (simp add: ns_def s d ll lnl)
  have lsi: "length sidx = n" using sh(3) idx(1) by (simp add: sidx_def shaped_nth)
  have lw: "length w = n" by (simp add: w_def v_def sm lc lsi lnl)
  have cur_i: "cur ! i = ?level ! i + dv ! i * ?slope ! i" if "i < n" for i
    using that by (simp add: cur_def d ll)
  have c_i: "c ! i = cur ! i + noise_of include_error rvs i idx" if "i < n" for i
    using that by (simp add: c_def noise_of_def lcur rv)
  have g_i: "g ! i = spec_global (use_log_global_trend slf) (gl ! i) (gs ! i) idx" if "i < n" for i
    using that by (simp add: g_def spec_global_def gl gs)
  have nl_i: "nl ! i = lsf ! i * c ! i + (1 - lsf ! i) * cur ! i" if "i < n" for i
    using that by (simp add: nl_def l lc lcur)
  have ns_i: "ns ! i = ssf ! i * (nl ! i - ?level ! i) + (1 - ssf ! i) * dv ! i * ?slope ! i"
    if "i < n" for i
    using that by (simp add: ns_def s d ll lnl)
  have v_i: "v ! i = sm ! i * (c ! i + sidx ! i - nl ! i) + (1 - sm ! i) * sidx ! i"
    if "i < n" "seasonality slf > 1" for i
    using that by (simp add: v_def sm lc lsi lnl)
  have lv: "seasonality slf > 1 \<Longrightarrow> length v = n"
    using lw by (simp add: w_def)
  have shaped': "state_shaped n F st'"
    using sh lc lg lnl lns lv
    by (simp add: state_shaped_def st'_def shaped_update)
  have spec: "(nl ! i, ns ! i) = spec_step (dv ! i) (lsf ! i) (ssf ! i)
                 (noise_of include_error rvs i idx) (?level ! i, ?slope ! i)" if "i < n" for i
    using that by (simp add: spec_step_def Let_def nl_i ns_i c_i cur_i)
  have seas: "seasonality_component st' =
             (if seasonality slf > 1 \<and> int idx + seasonality slf < fl
              then (seasonality_component st)[nat (int idx + seasonality slf) := w]
              else seasonality_component st)"
    by (simp add: st'_def w_def)
  show ?thesis
    apply (rule exI[of _ st'], rule exI[of _ c], rule exI[of _ g], rule exI[of _ w])
    apply (intro conjI)
              apply (rule step)
             apply (rule shaped')
            apply (simp add: st'_def)
           apply (rule lc)
          apply (simp add: c_i cur_i spec_local_def)
         apply (simp add: st'_def)
        apply (rule lg)
       apply (simp add: g_i)
      apply (simp add: st'_def spec)
     apply (rule seas)
    apply (rule lw)
    apply (simp add: w_def v_i sidx_def st'_def)
    done
qed

subsection \<open>The loop\<close>

lemma for_loop_append:
  "for_loop f (xs @ ys) st = ebind (for_loop f xs st) (for_loop f ys)"
proof (induction xs arbitrary: st)
  case Nil
  show ?case by simp
next
  case (Cons x xs)
  show ?case
    by (cases "f x st") (simp_all add: Cons.IH)
qed

lemma for_loop_snoc:
  "for_loop f [t0 ..< t0 + Suc k] st = ebind (for_loop f [t0 ..< t0 + k] st) (f (t0 + k))"
proof -
  have "for_loop f [t0 + k] = f (t0 + k)"
  proof
    fix s show "for_loop f [t0 + k] s = f (t0 + k) s"
      by (cases "f (t0 + k) s") simp_all
  qed
  then show ?thesis
    by (simp add: for_loop_append)
qed

text \<open>
  After \<open>k\<close> iterations the loop has raised nothing, the state is still well shaped, and
  the carried level and slope of every draw are those of the specification's recursion.
\<close>

lemma loop_state_spec:
  assumes P: "engine_params slf a n dv lsf ssf gl gs sm"
      and rv: "include_error \<longrightarrow> (\<forall>t. t0 \<le> t \<and> t < F \<longrightarrow> length (rvs t) = n)"
      and S: "state_shaped n F st0"
      and F: "F = nat fl"
  shows "t0 + k \<le> F \<Longrightarrow>
         \<exists>st. for_loop (forecast_step slf a include_error rvs fl) [t0 ..< t0 + k] st0 = Inr st \<and>
              state_shaped n F st \<and>
              (\<forall>i<n. (last_local_trend_level st ! i, last_local_trend_slope st ! i) =
                 spec_state (dv ! i) (lsf ! i) (ssf ! i) (noise_of include_error rvs i) t0 k
                   (last_local_trend_level st0 ! i, last_local_trend_slope st0 ! i))"
proof (induction k)
  case 0
  show ?case using S by simp
next
  case (Suc k)
  then obtain st where st: "for_loop (forecast_step slf a include_error rvs fl) [t0 ..< t0 + k] st0 = Inr st"
      and sh: "state_shaped n F st"
      and sp: "\<forall>i<n. (last_local_trend_level st ! i, last_local_trend_slope st ! i) =
                 spec_state (dv ! i) (lsf ! i) (ssf ! i) (noise_of include_error rvs i) t0 k
                   (last_local_trend_level st0 ! i, last_local_trend_slope st0 ! i)"
    by auto
  have idx: "t0 + k < F" using Suc.prems by simp
  have rvk: "include_error \<longrightarrow> length (rvs (t0 + k)) = n"
    using rv idx by simp
  from forecast_step_elem[where rvs = rvs and idx = "t0 + k", OF P rvk sh idx F]
  obtain st' where st': "forecast_step slf a include_error rvs fl (t0 + k) st = Inr st'"
      and sh': "state_shaped n F st'"
      and sp': "\<forall>i<n. (last_local_trend_level st' ! i, last_local_trend_slope st' ! i) =
                   spec_step (dv ! i) (lsf ! i) (ssf ! i) (noise_of include_error rvs i (t0 + k))
                     (last_local_trend_level st ! i, last_local_trend_slope st ! i)"
    by blast
  have "for_loop (forecast_step slf a include_error rvs fl) [t0 ..< t0 + Suc k] st0 = Inr st'"
    by (simp only: for_loop_snoc st ebind_Inr st')
  moreover have "\<forall>i<n. (last_local_trend_level st' ! i, last_local_trend_slope st' ! i) =
                 spec_state (dv ! i) (lsf ! i) (ssf ! i) (noise_of include_error rvs i) t0 (Suc k)
                   (last_local_trend_level st0 ! i, last_local_trend_slope st0 ! i)"
    using sp sp' by simp
  ultimately show ?case using sh' by blast
qed

lemma loop_step_split:
  assumes P: "engine_params slf a n dv lsf ssf gl gs sm"
      and rv: "include_error \<longrightarrow> (\<forall>t. t0 \<le> t \<and> t < F \<longrightarrow> length (rvs t) = n)"
      and S: "state_shaped n F st0"
      and F: "F = nat fl"
      and k: "t0 + Suc k \<le> F"
      and run: "for_loop (forecast_step slf a include_error rvs fl) [t0 ..< t0 + Suc k] st0 = Inr st'"
  shows "\<exists>st c g w.
           for_loop (forecast_step slf a include_error rvs fl) [t0 ..< t0 + k] st0 = Inr st \<and>
           state_shaped n F st \<and>
           (\<forall>i<n. (last_local_trend_level st ! i, last_local_trend_slope st ! i) =
                 spec_state (dv ! i) (lsf ! i) (ssf ! i) (noise_of include_error rvs i) t0 k
                   (last_local_trend_level st0 ! i, last_local_trend_slope st0 ! i)) \<and>
           (\<forall>i<n. (last_local_trend_level st' ! i, last_local_trend_slope st' ! i) =
                 spec_state (dv ! i) (lsf ! i) (ssf ! i) (noise_of include_error rvs i) t0 (Suc k)
                   (last_local_trend_level st0 ! i, last_local_trend_slope st0 ! i)) \<and>
           full_local_trend st' = (full_local_trend st)[t0 + k := c] \<and> length c = n \<and>
           (\<forall>i<n. c ! i = spec_local (dv ! i) (last_local_trend_level st ! i, last_local_trend_slope st ! i)
                           + noise_of include_error rvs i (t0 + k)) \<and>
           full_global_trend st' = (full_global_trend st)[t0 + k := g] \<and> length g = n \<and>
           (\<forall>i<n. g ! i = spec_global (use_log_global_trend slf) (gl ! i) (gs ! i) (t0 + k)) \<and>
           seasonality_component st' =
             (if seasonality slf > 1 \<and> int (t0 + k) + seasonality slf < fl
              then (seasonality_component st)[nat (int (t0 + k) + seasonality slf) := w]
              else seasonality_component st) \<and>
           length w = n \<and>
           (seasonality slf > 1 \<longrightarrow>
             (\<forall>i<n. w ! i = sm ! i * (c ! i + seasonality_component st ! (t0 + k) ! i
                                        - last_local_trend_level st' ! i)
                            + (1 - sm ! i) * seasonality_component st ! (t0 + k) ! i))"
proof -
  have k': "t0 + k \<le> F" using k by simp
  from loop_state_spec[OF P rv S F k']
  obtain st where st: "for_loop (forecast_step slf a include_error rvs fl) [t0 ..< t0 + k] st0 = Inr st"
      and sh: "state_shaped n F st"
      and sp: "\<forall>i<n. (last_local_trend_level st ! i, last_local_trend_slope st ! i) =
                 spec_state (dv ! i) (lsf ! i) (ssf ! i) (noise_of include_error rvs i) t0 k
                   (last_local_trend_level st0 ! i, last_local_trend_slope st0 ! i)"
    by blast
  have idx: "t0 + k < F" using k by simp
  have rvk: "include_error \<longrightarrow> length (rvs (t0 + k)) = n"
    using rv idx by simp
  have step: "forecast_step slf a include_error rvs fl (t0 + k) st = Inr st'"
    using run by (simp only: for_loop_snoc st ebind_Inr)
  from forecast_step_elem[where rvs = rvs and idx = "t0 + k", OF P rvk sh idx F]
  obtain st'' c g w where
        e0: "forecast_step slf a include_error rvs fl (t0 + k) st = Inr st''"
    and e1: "full_local_trend st'' = (full_local_trend st)[t0 + k := c]" "length c = n"
            "\<forall>i<n. c ! i = spec_local (dv ! i) (last_local_trend_level st ! i, last_local_trend_slope st ! i)
                           + noise_of include_error rvs i (t0 + k)"
    and e2: "full_global_trend st'' = (full_global_trend st)[t0 + k := g]" "length g = n"
            "\<forall>i<n. g ! i = spec_global (use_log_global_trend slf) (gl ! i) (gs ! i) (t0 + k)"
    and e3: "\<forall>i<n. (last_local_trend_level st'' ! i, last_local_trend_slope st'' ! i) =
                   spec_step (dv ! i) (lsf ! i) (ssf ! i) (noise_of include_error rvs i (t0 + k))
                     (last_local_trend_level st ! i, last_local_trend_slope st ! i)"
    and e4: "seasonality_component st'' =
             (if seasonality slf > 1 \<and> int (t0 + k) + seasonality slf < fl
              then (seasonality_component st)[nat (int (t0 + k) + seasonality slf) := w]
              else seasonality_component st)" "length w = n"
            "seasonality slf > 1 \<longrightarrow>
             (\<forall>i<n. w ! i = sm ! i * (c ! i + seasonality_component st ! (t0 + k) ! i
                                        - last_local_trend_level st'' ! i)
                            + (1 - sm ! i) * seasonality_component st ! (t0 + k) ! i)"
    by blast
  have eq: "st'' = st'" using e0 step by simp
  have sp': "\<forall>i<n. (last_local_trend_level st' ! i, last_local_trend_slope st' ! i) =
                 spec_state (dv ! i) (lsf ! i) (ssf ! i) (noise_of include_error rvs i) t0 (Suc k)
                   (last_local_trend_level st0 ! i, last_local_trend_slope st0 ! i)"
    using sp e3 eq by simp
  show ?thesis
    using st sh sp sp' e1 e2 e4 unfolding eq by blast
qed

text \<open>
  Column invariants: a forecast column, once written, is never written again, and the
  columns before the first forecast index are never written.
\<close>

lemma loop_local_trend:
  assumes P: "engine_params slf a n dv lsf ssf gl gs sm"
      and rv: "include_error \<longrightarrow> (\<forall>t. t0 \<le> t \<and> t < F \<longrightarrow> length (rvs t) = n)"
      and S: "state_shaped n F st0"
      and F: "F = nat fl"
  shows "t0 + k \<le> F \<Longrightarrow>
         for_loop (forecast_step slf a include_error rvs fl) [t0 ..< t0 + k] st0 = Inr st \<Longrightarrow>
         (\<forall>t. t0 \<le> t \<and> t < t0 + k \<longrightarrow>
            (\<forall>i<n. full_local_trend st ! t ! i =
               spec_local (dv ! i)
                 (spec_state (dv ! i) (lsf ! i) (ssf ! i) (noise_of include_error rvs i) t0 (t - t0)
                    (last_local_trend_level st0 ! i, last_local_trend_slope st0 ! i))
               + noise_of include_error rvs i t)) \<and>
         (\<forall>t<t0. full_local_trend st ! t = full_local_trend st0 ! t)"
proof (induction k arbitrary: st)
  case 0
  then show ?case by simp
next
  case (Suc k)
  from loop_step_split[OF P rv S F Suc.prems]
  obtain sk c where
        run: "for_loop (forecast_step slf a include_error rvs fl) [t0 ..< t0 + k] st0 = Inr sk"
    and sh: "state_shaped n F sk"
    and sp: "\<forall>i<n. (last_local_trend_level sk ! i, last_local_trend_slope sk ! i) =
                 spec_state (dv ! i) (lsf ! i) (ssf ! i) (noise_of include_error rvs i) t0 k
                   (last_local_trend_level st0 ! i, last_local_trend_slope st0 ! i)"
    and upd: "full_local_trend st = (full_local_trend sk)[t0 + k := c]"
    and c: "\<forall>i<n. c ! i = spec_local (dv ! i) (last_local_trend_level sk ! i, last_local_trend_slope sk ! i)
                           + noise_of include_error rvs i (t0 + k)"
    by blast
  have k': "t0 + k \<le> F" using Suc.prems(1) by simp
  note IH = Suc.IH[OF k' run]
  have len: "t0 + k < length (full_local_trend sk)"
    using sh Suc.prems(1) by (simp add: state_shaped_def shaped_def)
  show ?case
  proof (intro conjI allI impI)
    fix t i assume t: "t0 \<le> t \<and> t < t0 + Suc k" and i: "i < n"
    show "full_local_trend st ! t ! i =
            spec_local (dv ! i)
              (spec_state (dv ! i) (lsf ! i) (ssf ! i) (noise_of include_error rvs i) t0 (t - t0)
                 (last_local_trend_level st0 ! i, last_local_trend_slope st0 ! i))
            + noise_of include_error rvs i t"
    proof (cases "t = t0 + k")
      case True
      then show ?thesis using len c sp i by (simp add: upd)
    next
      case False
      then have "t0 \<le> t \<and> t < t0 + k" using t by simp
      then show ?thesis using IH i False by (simp add: upd)
    qed
  next
    fix t assume "t < t0"
    then show "full_local_trend st ! t = full_local_trend st0 ! t"
      using IH by (simp add: upd)
  qed
qed

lemma loop_global_trend:
  assumes P: "engine_params slf a n dv lsf ssf gl gs sm"
      and rv: "include_error \<longrightarrow> (\<forall>t. t0 \<le> t \<and> t < F \<longrightarrow> length (rvs t) = n)"
      and S: "state_shaped n F st0"
      and F: "F = nat fl"
  shows "t0 + k \<le> F \<Longrightarrow>
         for_loop (forecast_step slf a include_error rvs fl) [t0 ..< t0 + k] st0 = Inr st \<Longrightarrow>
         (\<forall>t. t0 \<le> t \<and> t < t0 + k \<longrightarrow>
            (\<forall>i<n. full_global_trend st ! t ! i =
               spec_global (use_log_global_trend slf) (gl ! i) (gs ! i) t)) \<and>
         (\<forall>t<t0. full_global_trend st ! t = full_global_trend st0 ! t)"
proof (induction k arbitrary: st)
  case 0
  then show ?case by simp
next
  case (Suc k)
  from loop_step_split[OF P rv S F Suc.prems]
  obtain sk g where
        run: "for_loop (forecast_step slf a include_error rvs fl) [t0 ..< t0 + k] st0 = Inr sk"
    and sh: "state_shaped n F sk"
    and upd: "full_global_trend st = (full_global_trend sk)[t0 + k := g]"
    and g: "\<forall>i<n. g ! i = spec_global (use_log_global_trend slf) (gl ! i) (gs ! i) (t0 + k)"
    by blast
  have k': "t0 + k \<le> F" using Suc.prems(1) by simp
  note IH = Suc.IH[OF k' run]
  have len: "t0 + k < length (full_global_trend sk)"
    using sh Suc.prems(1) by (simp add: state_shaped_def shaped_def)
  show ?case
  proof (intro conjI allI impI)
    fix t i assume t: "t0 \<le> t \<and> t < t0 + Suc k" and i: "i < n"
    show "full_global_trend st ! t ! i = spec_global (use_log_global_trend slf) (gl ! i) (gs ! i) t"
    proof (cases "t = t0 + k")
      case True
      then show ?thesis using len g i by (simp add: upd)
    next
      case False
      then have "t0 \<le> t \<and> t < t0 + k" using t by simp
      then show ?thesis using IH i False by (simp add: upd)
    qed
  next
    fix t assume "t < t0"
    then show "full_global_trend st ! t = full_global_trend st0 ! t"
      using IH by (simp add: upd)
  qed
qed

lemma loop_seasonality:
  assumes P: "engine_params slf a n dv lsf ssf gl gs sm"
      and rv: "include_error \<longrightarrow> (\<forall>t. t0 \<le> t \<and> t < F \<longrightarrow> length (rvs t) = n)"
      and S: "state_shaped n F st0"
      and F: "F = nat fl"
      and on: "seasonality slf > 1"
  shows "t0 + k \<le> F \<Longrightarrow>
         for_loop (forecast_step slf a include_error rvs fl) [t0 ..< t0 + k] st0 = Inr st \<Longrightarrow>
         (\<forall>t. t0 \<le> t \<and> t < t0 + k \<and> int t + seasonality slf < fl \<longrightarrow>
            (\<forall>i<n. seasonality_component st ! nat (int t + seasonality slf) ! i =
               sm ! i * (full_local_trend st ! t ! i + seasonality_component st ! t ! i
                         - fst (spec_state (dv ! i) (lsf ! i) (ssf ! i) (noise_of include_error rvs i)
                                  t0 (Suc (t - t0))
                                  (last_local_trend_level st0 ! i, last_local_trend_slope st0 ! i)))
               + (1 - sm ! i) * seasonality_component st ! t ! i))"
proof (induction k arbitrary: st)
  case 0
  then show ?case by simp
next
  case (Suc k)
  from loop_step_split[OF P rv S F Suc.prems]
  obtain sk c w where
        run: "for_loop (forecast_step slf a include_error rvs fl) [t0 ..< t0 + k] st0 = Inr sk"
    and sh: "state_shaped n F sk"
    and sp': "\<forall>i<n. (last_local_trend_level st ! i, last_local_trend_slope st ! i) =
                 spec_state (dv ! i) (lsf ! i) (ssf ! i) (noise_of include_error rvs i) t0 (Suc k)
                   (last_local_trend_level st0 ! i, last_local_trend_slope st0 ! i)"
    and updl: "full_local_trend st = (full_local_trend sk)[t0 + k := c]"
    and upds: "seasonality_component st =
             (if seasonality slf > 1 \<and> int (t0 + k) + seasonality slf < fl
              then (seasonality_component sk)[nat (int (t0 + k) + seasonality slf) := w]
              else seasonality_component sk)"
    and w: "seasonality slf > 1 \<longrightarrow>
             (\<forall>i<n. w ! i = sm ! i * (c ! i + seasonality_component sk ! (t0 + k) ! i
                                        - last_local_trend_level st ! i)
                            + (1 - sm ! i) * seasonality_component sk ! (t0 + k) ! i)"
    by blast
  have k': "t0 + k \<le> F" using Suc.prems(1) by simp
  note IH = Suc.IH[OF k' run]
  have lenl: "length (full_local_trend sk) = F" and lens: "length (seasonality_component sk) = F"
    using sh by (simp_all add: state_shaped_def shaped_def)
  have kF: "t0 + k < F" using Suc.prems(1) by simp
  show ?case
  proof (intro allI impI)
    fix t i assume t: "t0 \<le> t \<and> t < t0 + Suc k \<and> int t + seasonality slf < fl" and i: "i < n"
    let ?j = "nat (int t + seasonality slf)"
    let ?J = "nat (int (t0 + k) + seasonality slf)"
    show "seasonality_component st ! ?j ! i =
               sm ! i * (full_local_trend st ! t ! i + seasonality_component st ! t ! i
                         - fst (spec_state (dv ! i) (lsf ! i) (ssf ! i) (noise_of include_error rvs i)
                                  t0 (Suc (t - t0))
                                  (last_local_trend_level st0 ! i, last_local_trend_slope st0 ! i)))
               + (1 - sm ! i) * seasonality_component st ! t ! i"
    proof (cases "t = t0 + k")
      case True
      have cond: "seasonality slf > 1 \<and> int (t0 + k) + seasonality slf < fl"
        using on t True by simp
      have J: "?J < F" using cond F by simp
      have ne: "?J \<noteq> t0 + k" using on by arith
      have s1: "seasonality_component st ! ?J = w"
        using cond J lens by (simp add: upds)
      have s2: "seasonality_component st ! (t0 + k) = seasonality_component sk ! (t0 + k)"
        using cond ne by (simp add: upds)
      have s3: "full_local_trend st ! (t0 + k) = c"
        using kF lenl by (simp add: updl)
      have s4: "last_local_trend_level st ! i =
                fst (spec_state (dv ! i) (lsf ! i) (ssf ! i) (noise_of include_error rvs i) t0 (Suc k)
                   (last_local_trend_level st0 ! i, last_local_trend_slope st0 ! i))"
        using sp' i by (metis fst_conv)
      have "w ! i = sm ! i * (c ! i + seasonality_component sk ! (t0 + k) ! i
                                        - last_local_trend_level st ! i)
                            + (1 - sm ! i) * seasonality_component sk ! (t0 + k) ! i"
        using w on i by simp
      then show ?thesis
        unfolding True s1 s2 s3 s4 by simp
    next
      case False
      then have told: "t0 \<le> t \<and> t < t0 + k \<and> int t + seasonality slf < fl" using t by simp
      have n1: "?j \<noteq> ?J" using False on by arith
      have n2: "t \<noteq> ?J" using told on by arith
      have s1: "seasonality_component st ! ?j = seasonality_component sk ! ?j"
        using n1 by (simp add: upds)
      have s2: "seasonality_component st ! t = seasonality_component sk ! t"
        using n2 by (simp add: upds)
      have s3: "full_local_trend st ! t = full_local_trend sk ! t"
        using False by (simp add: updl)
      show ?thesis
        unfolding s1 s2 s3 using IH told i by simp
    qed
  qed
qed

text \<open>
  Where the loop starts: past the training length, \<open>trend\<close> pads the stored local and
  global trend with zero columns, takes the last stored level and slope as the carried
  state, and runs the loop from a well-shaped state.
\<close>

lemma shaped_append:
  "shaped n T X \<Longrightarrow> shaped n (T + k) (X @ replicate k (replicate n 0))"
  by (auto simp: shaped_def list_all_iff)

lemma cat1_shaped:
  "shaped n T X \<Longrightarrow> cat1 X (replicate k (replicate n 0)) = Inr (X @ replicate k (replicate n 0))"
  by (cases X; cases k) (simp_all add: cat1_def shaped_def)

lemma trend_forecast_branch:
  assumes fl: "int t0 < fl"
      and lt: "mat (local_trend a) = Inr LT" "shaped n t0 LT"
      and gt: "mat (global_trend a) = Inr GT" "shaped n t0 GT"
      and l0: "last_col (local_trend_levels a) = Inr level" "length level = n"
      and b0: "last_col (local_trend_slopes a) = Inr slope" "length slope = n"
      and ns: "num_sample a = n"
      and seas: "shaped n (nat fl) seas"
  shows "trend slf a include_error rvs t0 fl seas =
           ebind (forecast_loop slf a include_error rvs t0 fl
                    \<lparr> full_local_trend = LT @ replicate (nat fl - t0) (replicate n 0),
                      full_global_trend = GT @ replicate (nat fl - t0) (replicate n 0),
                      seasonality_component = seas,
                      last_local_trend_level = level, last_local_trend_slope = slope \<rparr>)
             (\<lambda>st. Inr (full_local_trend st, full_global_trend st, seasonality_component st))
         \<and> state_shaped n (nat fl)
             \<lparr> full_local_trend = LT @ replicate (nat fl - t0) (replicate n 0),
               full_global_trend = GT @ replicate (nat fl - t0) (replicate n 0),
               seasonality_component = seas,
               last_local_trend_level = level, last_local_trend_slope = slope \<rparr>"
proof -
  have k: "nat (fl - int t0) = nat fl - t0" using fl by simp
  have z: "zeros n (fl - int t0) = Inr (replicate (nat fl - t0) (replicate n 0))"
    using fl by (simp add: zeros_def k)
  have sl: "slice_to LT fl = LT" "slice_to GT fl = GT"
    using fl lt(2) gt(2) by (simp_all add: slice_to_def shaped_def)
  have T: "t0 + (nat fl - t0) = nat fl" using fl by simp
  have sh: "shaped n (nat fl) (LT @ replicate (nat fl - t0) (replicate n 0))"
           "shaped n (nat fl) (GT @ replicate (nat fl - t0) (replicate n 0))"
    using shaped_append[OF lt(2), of "nat fl - t0"] shaped_append[OF gt(2), of "nat fl - t0"]
    by (simp_all add: T)
  have "trend slf a include_error rvs t0 fl seas =
           ebind (forecast_loop slf a include_error rvs t0 fl
                    \<lparr> full_local_trend = LT @ replicate (nat fl - t0) (replicate n 0),
                      full_global_trend = GT @ replicate (nat fl - t0) (replicate n 0),
                      seasonality_component = seas,
                      last_local_trend_level = level, last_local_trend_slope = slope \<rparr>)
             (\<lambda>st. Inr (full_local_trend st, full_global_trend st, seasonality_component st))"
    using fl by (simp add: trend_def ns z lt(1) gt(1) sl cat1_shaped[OF lt(2)] cat1_shaped[OF gt(2)] l0(1) b0(1))
  then show ?thesis using sh seas l0(2) b0(2) by (simp add: state_shaped_def)
qed

subsection \<open>The forecast recursion (claim C1)\<close>

text \<open>
  Claim C1. For each forecast step \<open>t\<close> from the training length to the combined length
  minus one, the engine computes the damped local contribution
  \<open>local = last_level + damped_factor * last_slope\<close> and stores it, plus the noise when
  errors are included, in the local-trend tensor at \<open>t\<close>; it then sets
  \<open>new_level = level_smoothing_factor * local_trend[t] + (1 - level_smoothing_factor) * local\<close>
  with the pre-noise \<open>local\<close>, and
  \<open>new_slope = slope_smoothing_factor * (new_level - last_level)
     + (1 - slope_smoothing_factor) * damped_factor * last_slope\<close>,
  and carries \<open>(new_level, new_slope)\<close> to the next step.

  Stated for the whole loop: on well-shaped inputs \<open>forecast_loop\<close> returns, column \<open>t\<close> of
  the local trend holds for every draw the local contribution of the specification's
  state after \<open>t - t0\<close> steps plus that step's noise, and the state the loop ends with is
  the specification's state after all steps.
\<close>

theorem forecast_recursion:
  assumes P: "engine_params slf a n dv lsf ssf gl gs sm"
      and rv: "include_error \<longrightarrow> (\<forall>t. t0 \<le> t \<and> t < nat fl \<longrightarrow> length (rvs t) = n)"
      and S: "state_shaped n (nat fl) st0"
      and le: "t0 \<le> nat fl"
  shows "\<exists>st. forecast_loop slf a include_error rvs t0 fl st0 = Inr st \<and>
           (\<forall>t i. t0 \<le> t \<and> t < nat fl \<and> i < n \<longrightarrow>
              full_local_trend st ! t ! i =
                spec_local (dv ! i)
                  (spec_state (dv ! i) (lsf ! i) (ssf ! i) (noise_of include_error rvs i) t0 (t - t0)
                     (last_local_trend_level st0 ! i, last_local_trend_slope st0 ! i))
                + noise_of include_error rvs i t) \<and>
           (\<forall>i<n. (last_local_trend_level st ! i, last_local_trend_slope st ! i) =
              spec_state (dv ! i) (lsf ! i) (ssf ! i) (noise_of include_error rvs i) t0 (nat fl - t0)
                (last_local_trend_level st0 ! i, last_local_trend_slope st0 ! i))"
proof -
  have k: "t0 + (nat fl - t0) \<le> nat fl" using le by simp
  have F: "nat fl = nat fl" by simp
  from loop_state_spec[OF P rv S F k]
  obtain st where
        run: "for_loop (forecast_step slf a include_error rvs fl) [t0 ..< t0 + (nat fl - t0)] st0 = Inr st"
    and sp: "\<forall>i<n. (last_local_trend_level st ! i, last_local_trend_slope st ! i) =
              spec_state (dv ! i) (lsf ! i) (ssf ! i) (noise_of include_error rvs i) t0 (nat fl - t0)
                (last_local_trend_level st0 ! i, last_local_trend_slope st0 ! i)"
    by blast
  have loop: "forecast_loop slf a include_error rvs t0 fl st0 = Inr st"
    using run le by (simp add: forecast_loop_def)
  from loop_local_trend[OF P rv S F k run]
  have "\<forall>t i. t0 \<le> t \<and> t < nat fl \<and> i < n \<longrightarrow>
              full_local_trend st ! t ! i =
                spec_local (dv ! i)
                  (spec_state (dv ! i) (lsf ! i) (ssf ! i) (noise_of include_error rvs i) t0 (t - t0)
                     (last_local_trend_level st0 ! i, last_local_trend_slope st0 ! i))
                + noise_of include_error rvs i t"
    using le by simp
  then show ?thesis using loop sp by blast
qed

theorem forecast_recursion_witness:
  "engine_params ex_self ex_attributes 2 [1/2, 1/2] [1/2, 3/4] [1/2, 1/4] [7, 8] [0, 3] [1/2, 1/4]
   \<and> state_shaped 2 (nat 5) ex_state
   \<and> (\<exists>st. forecast_loop ex_self ex_attributes True ex_rvs 2 5 ex_state = Inr st
          \<and> full_local_trend st ! 2 ! 0 = 14
          \<and> full_local_trend st ! 3 ! 1 = 507 / 16
          \<and> last_local_trend_level st ! 0 = 249 / 16)"
proof -
  have P: "engine_params ex_self ex_attributes 2 [1/2, 1/2] [1/2, 3/4] [1/2, 1/4] [7, 8] [0, 3] [1/2, 1/4]"
    by (simp add: engine_params_def ex_self_def ex_attributes_def flatten_def as_vec_def)
  have S: "state_shaped 2 (nat 5) ex_state"
    by (simp add: state_shaped_def shaped_def ex_state_def)
  have rv: "True \<longrightarrow> (\<forall>t. 2 \<le> t \<and> t < nat 5 \<longrightarrow> length (ex_rvs t) = 2)"
    by (simp add: ex_rvs_def)
  have le: "2 \<le> nat 5" by simp
  from forecast_recursion[OF P rv S le]
  obtain st where
      run: "forecast_loop ex_self ex_attributes True ex_rvs 2 5 ex_state = Inr st"
    and flt: "\<forall>t i. 2 \<le> t \<and> t < nat 5 \<and> i < 2 \<longrightarrow>
              full_local_trend st ! t ! i =
                spec_local ([1/2, 1/2] ! i)
                  (spec_state ([1/2, 1/2] ! i) ([1/2, 3/4] ! i) ([1/2, 1/4] ! i) (noise_of True ex_rvs i) 2 (t - 2)
                     (last_local_trend_level ex_state ! i, last_local_trend_slope ex_state ! i))
                + noise_of True ex_rvs i t"
    and fin: "\<forall>i<2. (last_local_trend_level st ! i, last_local_trend_slope st ! i) =
              spec_state ([1/2, 1/2] ! i) ([1/2, 3/4] ! i) ([1/2, 1/4] ! i) (noise_of True ex_rvs i) 2 (nat 5 - 2)
                (last_local_trend_level ex_state ! i, last_local_trend_slope ex_state ! i)"
    by blast
  have a: "full_local_trend st ! 2 ! 0 = 14"
    using flt[rule_format, of 2 0]
    by (simp add: spec_local_def noise_of_def ex_rvs_def ex_state_def)
  have b: "full_local_trend st ! 3 ! 1 = 507 / 16"
    using flt[rule_format, of 3 1]
    by (simp add: spec_local_def spec_step_def noise_of_def ex_rvs_def ex_state_def)
  have c: "last_local_trend_level st ! 0 = 249 / 16"
    using fin[rule_format, of 0]
    by (simp add: spec_step_def noise_of_def ex_rvs_def ex_state_def numeral_3_eq_3 eval_nat_numeral)
  show ?thesis using P S run a b c by blast
qed

subsection \<open>The global trend of the forecast (claim C7)\<close>

text \<open>
  Claim C7. For each forecast index \<open>t\<close> the global trend value is
  \<open>global_trend_level + log(1 + global_trend_slope * t)\<close> in log-global-trend mode and
  \<open>global_trend_level + global_trend_slope * (t - 1)\<close> otherwise, with level and slope
  constant per draw.
\<close>

theorem global_trend_forecast:
  assumes P: "engine_params slf a n dv lsf ssf gl gs sm"
      and rv: "include_error \<longrightarrow> (\<forall>t. t0 \<le> t \<and> t < nat fl \<longrightarrow> length (rvs t) = n)"
      and S: "state_shaped n (nat fl) st0"
      and le: "t0 \<le> nat fl"
  shows "\<exists>st. forecast_loop slf a include_error rvs t0 fl st0 = Inr st \<and>
           (\<forall>t i. t0 \<le> t \<and> t < nat fl \<and> i < n \<longrightarrow>
              full_global_trend st ! t ! i =
                (if use_log_global_trend slf
                 then gl ! i + ln (1 + gs ! i * real t)
                 else gl ! i + gs ! i * (real t - 1)))"
proof -
  have k: "t0 + (nat fl - t0) \<le> nat fl" using le by simp
  have F: "nat fl = nat fl" by simp
  from loop_state_spec[OF P rv S F k]
  obtain st where
        run: "for_loop (forecast_step slf a include_error rvs fl) [t0 ..< t0 + (nat fl - t0)] st0 = Inr st"
    by blast
  have loop: "forecast_loop slf a include_error rvs t0 fl st0 = Inr st"
    using run le by (simp add: forecast_loop_def)
  from loop_global_trend[OF P rv S F k run]
  have "\<forall>t i. t0 \<le> t \<and> t < nat fl \<and> i < n \<longrightarrow>
              full_global_trend st ! t ! i =
                (if use_log_global_trend slf
                 then gl ! i + ln (1 + gs ! i * real t)
                 else gl ! i + gs ! i * (real t - 1))"
    using le by (simp add: spec_global_def torch_log_def)
  then show ?thesis using loop by blast
qed

theorem global_trend_forecast_witness:
  "engine_params ex_self ex_attributes 2 [1/2, 1/2] [1/2, 3/4] [1/2, 1/4] [7, 8] [0, 3] [1/2, 1/4]
   \<and> state_shaped 2 (nat 5) ex_state
   \<and> (\<exists>st. forecast_loop ex_self ex_attributes True ex_rvs 2 5 ex_state = Inr st
          \<and> full_global_trend st ! 3 ! 1 = 14
          \<and> full_global_trend st ! 4 ! 0 = 7)"
proof -
  have P: "engine_params ex_self ex_attributes 2 [1/2, 1/2] [1/2, 3/4] [1/2, 1/4] [7, 8] [0, 3] [1/2, 1/4]"
    by (simp add: engine_params_def ex_self_def ex_attributes_def flatten_def as_vec_def)
  have S: "state_shaped 2 (nat 5) ex_state"
    by (simp add: state_shaped_def shaped_def ex_state_def)
  have rv: "True \<longrightarrow> (\<forall>t. 2 \<le> t \<and> t < nat 5 \<longrightarrow> length (ex_rvs t) = 2)"
    by (simp add: ex_rvs_def)
  have le: "2 \<le> nat 5" by simp
  from global_trend_forecast[OF P rv S le]
  obtain st where
      run: "forecast_loop ex_self ex_attributes True ex_rvs 2 5 ex_state = Inr st"
    and fgt: "\<forall>t i. 2 \<le> t \<and> t < nat 5 \<and> i < 2 \<longrightarrow>
              full_global_trend st ! t ! i =
                (if use_log_global_trend ex_self
                 then [7, 8] ! i + ln (1 + [0, 3] ! i * real t)
                 else [7, 8] ! i + [0, 3] ! i * (real t - 1))"
    by blast
  have a: "full_global_trend st ! 3 ! 1 = 14"
    using fgt[rule_format, of 3 1] by (simp add: ex_self_def)
  have b: "full_global_trend st ! 4 ! 0 = 7"
    using fgt[rule_format, of 4 0] by (simp add: ex_self_def)
  show ?thesis using P S run a b by blast
qed

subsection \<open>Seasonality written one period ahead (claim C4)\<close>

text \<open>
  Claim C4. Whenever seasonality is enabled and \<open>t + period < combined_length\<close>, the loop
  writes \<open>seasonality[t + period] = sm * (local_trend[t] + seasonality[t] - new_level)
     + (1 - sm) * seasonality[t]\<close>: the value one period ahead is a combination, with
  weights summing to one, of the level residual at \<open>t\<close> and the seasonality at \<open>t\<close>.

  Stated on the tensors as the loop leaves them: the entries read at \<open>t\<close> are not written
  after step \<open>t\<close>, so the equation holds between final values. \<open>new_level\<close> is the level
  of the specification's state after step \<open>t\<close>.
\<close>

theorem seasonality_write_ahead:
  assumes P: "engine_params slf a n dv lsf ssf gl gs sm"
      and rv: "include_error \<longrightarrow> (\<forall>t. t0 \<le> t \<and> t < nat fl \<longrightarrow> length (rvs t) = n)"
      and S: "state_shaped n (nat fl) st0"
      and le: "t0 \<le> nat fl"
      and on: "seasonality slf > 1"
  shows "\<exists>st. forecast_loop slf a include_error rvs t0 fl st0 = Inr st \<and>
           (\<forall>t i. t0 \<le> t \<and> t < nat fl \<and> int t + seasonality slf < fl \<and> i < n \<longrightarrow>
              seasonality_component st ! nat (int t + seasonality slf) ! i =
                sm ! i * (full_local_trend st ! t ! i + seasonality_component st ! t ! i
                          - fst (spec_state (dv ! i) (lsf ! i) (ssf ! i) (noise_of include_error rvs i)
                                   t0 (Suc (t - t0))
                                   (last_local_trend_level st0 ! i, last_local_trend_slope st0 ! i)))
                + (1 - sm ! i) * seasonality_component st ! t ! i
              \<and> sm ! i + (1 - sm ! i) = 1)"
proof -
  have k: "t0 + (nat fl - t0) \<le> nat fl" using le by simp
  have F: "nat fl = nat fl" by simp
  from loop_state_spec[OF P rv S F k]
  obtain st where
        run: "for_loop (forecast_step slf a include_error rvs fl) [t0 ..< t0 + (nat fl - t0)] st0 = Inr st"
    by blast
  have loop: "forecast_loop slf a include_error rvs t0 fl st0 = Inr st"
    using run le by (simp add: forecast_loop_def)
  from loop_seasonality[OF P rv S F on k run]
  have "\<forall>t i. t0 \<le> t \<and> t < nat fl \<and> int t + seasonality slf < fl \<and> i < n \<longrightarrow>
              seasonality_component st ! nat (int t + seasonality slf) ! i =
                sm ! i * (full_local_trend st ! t ! i + seasonality_component st ! t ! i
                          - fst (spec_state (dv ! i) (lsf ! i) (ssf ! i) (noise_of include_error rvs i)
                                   t0 (Suc (t - t0))
                                   (last_local_trend_level st0 ! i, last_local_trend_slope st0 ! i)))
                + (1 - sm ! i) * seasonality_component st ! t ! i
              \<and> sm ! i + (1 - sm ! i) = 1"
    using le by simp
  then show ?thesis using loop by blast
qed

theorem seasonality_write_ahead_witness:
  "engine_params ex_self ex_attributes 2 [1/2, 1/2] [1/2, 3/4] [1/2, 1/4] [7, 8] [0, 3] [1/2, 1/4]
   \<and> state_shaped 2 (nat 5) ex_state
   \<and> seasonality ex_self > 1
   \<and> (\<exists>st. forecast_loop ex_self ex_attributes True ex_rvs 2 5 ex_state = Inr st
          \<and> seasonality_component st ! 4 ! 0 =
              1/2 * (full_local_trend st ! 2 ! 0 + seasonality_component st ! 2 ! 0 - 27/2)
              + (1 - 1/2) * seasonality_component st ! 2 ! 0)"
proof -
  have P: "engine_params ex_self ex_attributes 2 [1/2, 1/2] [1/2, 3/4] [1/2, 1/4] [7, 8] [0, 3] [1/2, 1/4]"
    by (simp add: engine_params_def ex_self_def ex_attributes_def flatten_def as_vec_def)
  have S: "state_shaped 2 (nat 5) ex_state"
    by (simp add: state_shaped_def shaped_def ex_state_def)
  have rv: "True \<longrightarrow> (\<forall>t. 2 \<le> t \<and> t < nat 5 \<longrightarrow> length (ex_rvs t) = 2)"
    by (simp add: ex_rvs_def)
  have le: "2 \<le> nat 5" by simp
  have on: "seasonality ex_self > 1" by (simp add: ex_self_def)
  from seasonality_write_ahead[OF P rv S le on]
  obtain st where
      run: "forecast_loop ex_self ex_attributes True ex_rvs 2 5 ex_state = Inr st"
    and seas: "\<forall>t i. 2 \<le> t \<and> t < nat 5 \<and> int t + seasonality ex_self < 5 \<and> i < 2 \<longrightarrow>
              seasonality_component st ! nat (int t + seasonality ex_self) ! i =
                [1/2, 1/4] ! i * (full_local_trend st ! t ! i + seasonality_component st ! t ! i
                          - fst (spec_state ([1/2, 1/2] ! i) ([1/2, 3/4] ! i) ([1/2, 1/4] ! i) (noise_of True ex_rvs i)
                                   2 (Suc (t - 2))
                                   (last_local_trend_level ex_state ! i, last_local_trend_slope ex_state ! i)))
                + (1 - [1/2, 1/4] ! i) * seasonality_component st ! t ! i
              \<and> [1/2, 1/4] ! i + (1 - [1/2, 1/4] ! i) = (1::real)"
    by blast
  have a: "seasonality_component st ! 4 ! 0 =
              1/2 * (full_local_trend st ! 2 ! 0 + seasonality_component st ! 2 ! 0 - 27/2)
              + (1 - 1/2) * seasonality_component st ! 2 ! 0"
    using seas[rule_format, of 2 0]
    by (simp add: ex_self_def spec_step_def noise_of_def ex_rvs_def ex_state_def)
  show ?thesis using P S on run a by blast
qed

subsection \<open>The horizon (claim C5)\<close>

lemma first_index_nth: "distinct xs \<Longrightarrow> i < length xs \<Longrightarrow> first_index xs (xs ! i) = i"
proof (induction xs arbitrary: i)
  case Nil
  then show ?case by simp
next
  case (Cons x xs)
  show ?case
  proof (cases i)
    case 0
    then show ?thesis by simp
  next
    case (Suc j)
    then have "xs ! j \<in> set xs" using Cons.prems by simp
    then have "x \<noteq> xs ! j" using Cons.prems by auto
    then show ?thesis using Suc Cons by simp
  qed
qed

lemma count_list_distinct: "distinct xs \<Longrightarrow> x \<in> set xs \<Longrightarrow> count_list xs x = 1"
  by (induction xs) auto

lemma get_loc_nth: "distinct xs \<Longrightarrow> i < length xs \<Longrightarrow> get_loc xs (xs ! i) = Inr (Loc i)"
  by (simp add: get_loc_def first_index_nth count_list_distinct)

text \<open>
  Claim C5. If \<open>prediction_start > training_end\<close>, the forecast horizon is the number of
  distinct prediction dates and the start offset is the training length; otherwise the
  horizon is the number of prediction dates that are not training dates or, when there is
  none, minus the number of training dates that are not prediction dates, and the start
  offset is the position of \<open>prediction_start\<close> in the training date index.

  The position is the index \<open>i\<close> at which the training dates, which do not repeat, hold
  \<open>prediction_start\<close>.
\<close>

theorem horizon_resolver:
  "(prediction_start pm > training_end tm \<longrightarrow>
      horizon tm pm = Inr (int (card (set (date_array pm))), Loc (training_df_length tm)))
   \<and> (\<not> prediction_start pm > training_end tm
        \<and> distinct (training_date_array tm) \<and> i < length (training_date_array tm)
        \<and> training_date_array tm ! i = prediction_start pm \<longrightarrow>
      horizon tm pm =
        Inr (if card (set (date_array pm) - set (training_date_array tm)) \<noteq> 0
             then int (card (set (date_array pm) - set (training_date_array tm)))
             else - int (card (set (training_date_array tm) - set (date_array pm))),
             Loc i))"
proof (intro conjI impI)
  assume "prediction_start pm > training_end tm"
  then show "horizon tm pm = Inr (int (card (set (date_array pm))), Loc (training_df_length tm))"
    by (simp add: horizon_def)
next
  assume h: "\<not> prediction_start pm > training_end tm
        \<and> distinct (training_date_array tm) \<and> i < length (training_date_array tm)
        \<and> training_date_array tm ! i = prediction_start pm"
  then have "get_loc (training_date_array tm) (prediction_start pm) = Inr (Loc i)"
    using get_loc_nth[of "training_date_array tm" i] by simp
  then show "horizon tm pm =
        Inr (if card (set (date_array pm) - set (training_date_array tm)) \<noteq> 0
             then int (card (set (date_array pm) - set (training_date_array tm)))
             else - int (card (set (training_date_array tm) - set (date_array pm))),
             Loc i)"
    using h
    by (cases "card (set (date_array pm) - set (training_date_array tm)) = 0")
       (simp_all add: horizon_def Let_def)
qed

theorem horizon_resolver_witness:
  "prediction_start (ex_pm [3, 4]) > training_end ex_training_meta
   \<and> horizon ex_training_meta (ex_pm [3, 4]) = Inr (2, Loc 2)
   \<and> \<not> prediction_start (ex_pm [2, 3]) > training_end ex_training_meta
   \<and> distinct (training_date_array ex_training_meta)
   \<and> training_date_array ex_training_meta ! 1 = prediction_start (ex_pm [2, 3])
   \<and> horizon ex_training_meta (ex_pm [2, 3]) = Inr (1, Loc 1)
   \<and> horizon ex_training_meta (ex_pm [2]) = Inr (- 1, Loc 1)"
proof -
  have a: "prediction_start (ex_pm [3, 4]) > training_end ex_training_meta"
    by (simp add: ex_pm_def ex_training_meta_def)
  have b: "\<not> prediction_start (ex_pm [2, 3]) > training_end ex_training_meta
        \<and> distinct (training_date_array ex_training_meta)
        \<and> 1 < length (training_date_array ex_training_meta)
        \<and> training_date_array ex_training_meta ! 1 = prediction_start (ex_pm [2, 3])"
    by (simp add: ex_pm_def ex_training_meta_def)
  have c: "\<not> prediction_start (ex_pm [2]) > training_end ex_training_meta
        \<and> distinct (training_date_array ex_training_meta)
        \<and> 1 < length (training_date_array ex_training_meta)
        \<and> training_date_array ex_training_meta ! 1 = prediction_start (ex_pm [2])"
    by (simp add: ex_pm_def ex_training_meta_def)
  have s1: "set (date_array (ex_pm [3, 4])) = {3, 4}"
    and s2: "set (date_array (ex_pm [2, 3])) - set (training_date_array ex_training_meta) = {3}"
    and s3: "set (date_array (ex_pm [2])) - set (training_date_array ex_training_meta) = {}"
    and s4: "set (training_date_array ex_training_meta) - set (date_array (ex_pm [2])) = {1}"
    by (auto simp: ex_pm_def ex_training_meta_def)
  have "horizon ex_training_meta (ex_pm [3, 4]) = Inr (2, Loc 2)"
    using horizon_resolver[of ex_training_meta "ex_pm [3, 4]" 0] a
    by (simp add: s1) (simp add: ex_training_meta_def)
  moreover have "horizon ex_training_meta (ex_pm [2, 3]) = Inr (1, Loc 1)"
    using horizon_resolver[of ex_training_meta "ex_pm [2, 3]" 1] b
    by (simp add: s2)
  moreover have "horizon ex_training_meta (ex_pm [2]) = Inr (- 1, Loc 1)"
    using horizon_resolver[of ex_training_meta "ex_pm [2]" 1] c
    by (simp add: s3 s4)
  ultimately show ?thesis using a b by simp
qed

subsection \<open>The combined length (claim C2)\<close>

lemma horizon_negative:
  assumes "horizon tm pm = Inr (n, st)" and "n < 0"
  shows "n = - int (card (set (training_date_array tm) - set (date_array pm)))"
  using assms
  by (auto simp: horizon_def Let_def ebind_eq_Inr split: if_splits)

text \<open>
  Claim C2 says that the combined working length is
  \<open>training_length + max(forecast_horizon, 0)\<close>, and that with a negative horizon it still is
  the training length. Line 316 adds the signed horizon: for the frame with the single
  date 1, which is a training date, the horizon is \<open>-1\<close> and the combined length is \<open>1\<close>,
  not \<open>2\<close>.
\<close>

theorem combined_length_counterexample:
  "map_sum id full_len (components ex_self ex_attributes (ex_df [1]) False ex_rvs) = Inr 1
   \<and> ebind (prediction_df_meta (ex_df [1])) (horizon (training_df_meta ex_self)) = Inr (- 1, Loc 0)
   \<and> (1::int) \<noteq> int (training_df_length (training_df_meta ex_self)) + max (- 1) 0"
  by code_simp

text \<open>
  Claim C2, amended. For every prediction call that gets past the horizon, the combined
  length is \<open>training_length + forecast_horizon\<close> with the signed horizon: it is
  \<open>training_length + max(forecast_horizon, 0)\<close> when the horizon is not negative, and when
  the horizon is negative it is smaller than the training length, by the number of
  training dates that are not prediction dates.
\<close>

theorem combined_length_signed:
  assumes "components slf a df include_error rvs = Inr c"
  shows "\<exists>pm n st.
           prediction_df_meta df = Inr pm \<and>
           horizon (training_df_meta slf) pm = Inr (n, st) \<and>
           full_len c = int (training_df_length (training_df_meta slf)) + n \<and>
           (0 \<le> n \<longrightarrow>
              full_len c = int (training_df_length (training_df_meta slf)) + max n 0) \<and>
           (n < 0 \<longrightarrow>
              full_len c < int (training_df_length (training_df_meta slf)) \<and>
              full_len c = int (training_df_length (training_df_meta slf))
                 - int (card (set (training_date_array (training_df_meta slf))
                              - set (date_array pm))))"
proof -
  from assms obtain pm where pm: "prediction_df_meta df = Inr pm"
    and rest: "ebind (horizon (training_df_meta slf) pm) (\<lambda>(n_forecast_steps, st).
             let fl = int (training_df_length (training_df_meta slf)) + n_forecast_steps
             in ebind (regression slf a df (df_length pm)) (\<lambda>reg.
                ebind (seasonality_init slf a fl) (\<lambda>seas.
                ebind (trend slf a include_error rvs (training_df_length (training_df_meta slf)) fl seas) (\<lambda>(flt, fgt, seas1).
                Inr \<lparr> full_len = fl, start = st, regressor_component = reg,
                      final_seasonality = seas1, final_local_trend = flt,
                      final_global_trend = fgt \<rparr>)))) = Inr c"
    by (auto simp: components_def ebind_eq_Inr Let_def split: if_splits)
  from rest obtain n st where h: "horizon (training_df_meta slf) pm = Inr (n, st)"
    and fl: "full_len c = int (training_df_length (training_df_meta slf)) + n"
    by (auto simp: ebind_eq_Inr Let_def split: prod.splits)
  have neg: "n < 0 \<Longrightarrow> n = - int (card (set (training_date_array (training_df_meta slf)) - set (date_array pm)))"
    using horizon_negative[OF h] by simp
  show ?thesis
    using pm h fl neg by auto
qed

theorem combined_length_signed_witness:
  "components ex_self ex_attributes (ex_df [1]) False ex_rvs =
     Inr \<lparr> full_len = 1, start = Loc 0, regressor_component = [[0, 0]],
           final_seasonality = [[1, 2]], final_local_trend = [[10, 20]],
           final_global_trend = [[7, 8]] \<rparr>
   \<and> horizon (training_df_meta ex_self) (ex_pm [1]) = Inr (- 1, Loc 0)
   \<and> (1::int) = int (training_df_length (training_df_meta ex_self)) + (- 1)
   \<and> (1::int) < int (training_df_length (training_df_meta ex_self))"
proof -
  have c: "components ex_self ex_attributes (ex_df [1]) False ex_rvs =
     Inr \<lparr> full_len = 1, start = Loc 0, regressor_component = [[0, 0]],
           final_seasonality = [[1, 2]], final_local_trend = [[10, 20]],
           final_global_trend = [[7, 8]] \<rparr>"
    by code_simp
  have pm: "prediction_df_meta (ex_df [1]) = Inr (ex_pm [1])"
    by (simp add: prediction_df_meta_def ex_df_def ex_pm_def)
  have h: "horizon (training_df_meta ex_self) (ex_pm [1]) = Inr (- 1, Loc 0)"
    by code_simp
  from combined_length_signed[OF c] pm h
  have "full_len \<lparr> full_len = 1, start = Loc 0, regressor_component = [[0, 0]],
           final_seasonality = [[1, 2]], final_local_trend = [[10, 20]],
           final_global_trend = [[7, 8]] \<rparr>
         = int (training_df_length (training_df_meta ex_self)) + (- 1)
        \<and> full_len \<lparr> full_len = 1, start = Loc 0, regressor_component = [[0, 0]],
           final_seasonality = [[1, 2]], final_local_trend = [[10, 20]],
           final_global_trend = [[7, 8]] \<rparr> < int (training_df_length (training_df_meta ex_self))"
    by auto
  then show ?thesis using c h by simp
qed

subsection \<open>The date checks (claim C9)\<close>

text \<open>Nothing after line 291 raises either of the two exceptions of the date checks.\<close>

lemma quiet_Inr [simp]: "quiet (Inr x)"
  by (simp add: quiet_def)

lemma quiet_Inl [simp]: "quiet (Inl e) \<longleftrightarrow> \<not> date_error e"
  by (simp add: quiet_def)

lemma date_error_simps [simp]:
  "date_error IllegalArgument" "date_error PredictionException"
  "\<not> date_error KeyError" "\<not> date_error IndexError" "\<not> date_error TypeError"
  "\<not> date_error AttributeError" "\<not> date_error RuntimeError" "\<not> date_error OutsideModel"
  by (simp_all add: date_error_def)

lemma quiet_ebind: "quiet m \<Longrightarrow> (\<And>x. quiet (f x)) \<Longrightarrow> quiet (ebind m f)"
  by (cases m) simp_all

lemma quiet_if: "(c \<Longrightarrow> quiet x) \<Longrightarrow> (\<not> c \<Longrightarrow> quiet y) \<Longrightarrow> quiet (if c then x else y)"
  by simp

lemma quiet_sequence: "(\<And>m. m \<in> set ms \<Longrightarrow> quiet m) \<Longrightarrow> quiet (sequence ms)"
  by (induction ms) (auto intro!: quiet_ebind)

lemma quiet_broadcast2 [simp]: "quiet (broadcast2 f xs ys)"
  by (simp add: broadcast2_def)

lemma quiet_lift2: "quiet x \<Longrightarrow> quiet y \<Longrightarrow> quiet (lift2 f x y)"
  by (auto simp: lift2_def intro!: quiet_ebind)

lemma quiet_vadd: "quiet x \<Longrightarrow> quiet y \<Longrightarrow> quiet (vadd x y)"
  by (simp add: vadd_def quiet_lift2)

lemma quiet_vsub: "quiet x \<Longrightarrow> quiet y \<Longrightarrow> quiet (vsub x y)"
  by (simp add: vsub_def quiet_lift2)

lemma quiet_vmul: "quiet x \<Longrightarrow> quiet y \<Longrightarrow> quiet (vmul x y)"
  by (simp add: vmul_def quiet_lift2)

lemma quiet_vmap: "quiet x \<Longrightarrow> quiet (vmap f x)"
  by (auto simp: vmap_def intro!: quiet_ebind)

lemma quiet_zeros [simp]: "quiet (zeros n k)"
  by (simp add: zeros_def)

lemma quiet_col [simp]: "quiet (col X j)"
  by (simp add: col_def)

lemma quiet_fit [simp]: "quiet (fit n v)"
  by (simp add: fit_def)

lemma quiet_set_col [simp]: "quiet (set_col X j v)"
  by (auto simp: set_col_def intro!: quiet_ebind)

lemma quiet_add_col [simp]: "quiet (add_col X j v)"
  by (auto simp: add_col_def intro!: quiet_ebind)

lemma quiet_cat1 [simp]: "quiet (cat1 A B)"
  by (simp add: cat1_def)

lemma quiet_tensor_add [simp]: "quiet (tensor_add A B)"
  by (auto simp: tensor_add_def intro!: quiet_sequence dest!: set_zip_leftD)

lemma quiet_matmul [simp]: "quiet (matmul A B)"
  by (simp add: matmul_def)

lemma quiet_shape1 [simp]: "quiet (shape1 v)"
  by (simp add: shape1_def split: option.split ndarray.split)

lemma quiet_mat [simp]: "quiet (mat v)"
  by (simp add: mat_def split: option.split ndarray.split)

lemma quiet_as_vec [simp]: "quiet (as_vec v)"
  by (simp add: as_vec_def split: option.split ndarray.split)

lemma quiet_flatten [simp]: "quiet (flatten v)"
  by (simp add: flatten_def split: option.split ndarray.split)

lemma quiet_last_col [simp]: "quiet (last_col v)"
  by (auto simp: last_col_def intro!: quiet_ebind)

lemma quiet_df_values [simp]: "quiet (df_values df cols)"
  by (auto simp: df_values_def intro!: quiet_sequence split: option.split)

lemma quiet_beta_t [simp]: "quiet (beta_t b)"
  by (simp add: beta_t_def split: option.split ndarray.split)

lemma quiet_regression [simp]: "quiet (regression slf a df k)"
  by (auto simp: regression_def intro!: quiet_ebind)

lemma quiet_seasonality_init [simp]: "quiet (seasonality_init slf a k)"
  by (auto simp: seasonality_init_def intro!: quiet_ebind)

lemma quiet_forecast_step [simp]: "quiet (forecast_step slf a ie rvs k idx st)"
  unfolding forecast_step_def
  by (intro quiet_ebind quiet_if quiet_vadd quiet_vmul quiet_vsub quiet_vmap) simp_all

lemma quiet_for_loop: "(\<And>i s. quiet (f i s)) \<Longrightarrow> quiet (for_loop f idxs st)"
  by (induction idxs arbitrary: st) (auto intro!: quiet_ebind)

lemma quiet_forecast_loop [simp]: "quiet (forecast_loop slf a ie rvs t0 k st)"
  by (simp add: forecast_loop_def quiet_for_loop)

lemma quiet_trend [simp]: "quiet (trend slf a ie rvs t0 k seas)"
  unfolding trend_def
  by (intro quiet_ebind quiet_if) simp_all

lemma quiet_get_loc [simp]: "quiet (get_loc ds d)"
  by (simp add: get_loc_def)

lemma quiet_horizon [simp]: "quiet (horizon tm pm)"
  by (auto simp: horizon_def Let_def intro!: quiet_ebind)

lemma quiet_combine [simp]: "quiet (combine slf c dc)"
  unfolding combine_def
  by (auto intro!: quiet_ebind split: loc.split simp: Let_def)

lemma components_checks:
  assumes ne: "date_values f \<noteq> []"
  shows "components slf a f ie rvs =
           (if \<not> sorted_wrt (<) (date_values f) then Inl IllegalArgument
            else if hd (date_values f) < training_start (training_df_meta slf)
            then Inl PredictionException
            else components slf a f ie rvs)
         \<and> (sorted_wrt (<) (date_values f) \<and>
              \<not> hd (date_values f) < training_start (training_df_meta slf)
              \<longrightarrow> quiet (components slf a f ie rvs))"
  using ne
  by (auto simp: components_def prediction_df_meta_def is_ordered_datetime_def Let_def
        intro!: quiet_ebind split: prod.split)

text \<open>
  Claim C9. The prediction call raises \<open>IllegalArgument\<close> if and only if the prediction
  date array is not strictly increasing, and, given an ordered date array, raises
  \<open>PredictionException\<close> if and only if \<open>prediction_start\<close> is earlier than
  \<open>training_start\<close>; the ordering check comes first.

  Stated for a call that reaches line 278: the posterior has been read (lines 207--261)
  and the copied frame prepared (lines 269--275) without an exception, and the frame \<open>f\<close>
  that results has a row. The date array is the date column of \<open>f\<close>, which is the
  caller's when no transformation is configured.
\<close>

theorem date_validation:
  assumes dc: "deepcopy s (posterior_state slf) = (s1, model)"
      and at: "ebind (sequence (map (from_numpy s1) model)) (model_attributes slf) = Inr a"
      and pr: "prepare_df slf s1 df = (s2, Inr dfa)"
      and fr: "frame_at s2 dfa = Inr f"
      and ne: "date_values f \<noteq> []"
  shows "(snd (predict slf s df include_error decompose rvs) = Inl IllegalArgument
            \<longleftrightarrow> \<not> sorted_wrt (<) (date_values f))
       \<and> (sorted_wrt (<) (date_values f) \<longrightarrow>
            (snd (predict slf s df include_error decompose rvs) = Inl PredictionException
               \<longleftrightarrow> hd (date_values f) < training_start (training_df_meta slf)))
       \<and> (\<not> sorted_wrt (<) (date_values f)
            \<and> hd (date_values f) < training_start (training_df_meta slf)
            \<longrightarrow> snd (predict slf s df include_error decompose rvs) = Inl IllegalArgument)"
proof -
  let ?c = "components slf a f include_error rvs"
  have res: "snd (predict slf s df include_error decompose rvs) =
               (case ?c of Inl e \<Rightarrow> Inl e | Inr c \<Rightarrow> combine slf c decompose)"
    by (simp add: predict_def dc at pr fr split: sum.split)
  note ch = components_checks[OF ne, of slf a include_error rvs]
  have q: "quiet (combine slf c decompose)" for c by simp
  show ?thesis
  proof (cases "sorted_wrt (<) (date_values f)")
    case False
    then have "?c = Inl IllegalArgument" using ch by simp
    then show ?thesis using False by (simp add: res)
  next
    case True
    show ?thesis
    proof (cases "hd (date_values f) < training_start (training_df_meta slf)")
      case lt: True
      then have "?c = Inl PredictionException" using ch True by simp
      then show ?thesis using True lt by (simp add: res)
    next
      case ge: False
      then have qc: "quiet ?c" using ch True by simp
      have "quiet (snd (predict slf s df include_error decompose rvs))"
        using qc q by (cases ?c) (simp_all add: res)
      then have "snd (predict slf s df include_error decompose rvs) \<noteq> Inl IllegalArgument"
            and "snd (predict slf s df include_error decompose rvs) \<noteq> Inl PredictionException"
        by auto
      then show ?thesis using True ge by simp
    qed
  qed
qed

theorem date_validation_witness:
  "date_values (ex_df [3, 2]) \<noteq> [] \<and> \<not> sorted_wrt (<) (date_values (ex_df [3, 2]))
   \<and> snd (predict ex_self (ex_store [3, 2]) (Some 10) False False ex_rvs) = Inl IllegalArgument
   \<and> date_values (ex_df [0, 1]) \<noteq> [] \<and> sorted_wrt (<) (date_values (ex_df [0, 1]))
   \<and> hd (date_values (ex_df [0, 1])) < training_start (training_df_meta ex_self)
   \<and> snd (predict ex_self (ex_store [0, 1]) (Some 10) False False ex_rvs) = Inl PredictionException
   \<and> date_values (ex_df [2, 3]) \<noteq> [] \<and> sorted_wrt (<) (date_values (ex_df [2, 3]))
   \<and> \<not> hd (date_values (ex_df [2, 3])) < training_start (training_df_meta ex_self)
   \<and> snd (predict ex_self (ex_store [2, 3]) (Some 10) False False ex_rvs) \<noteq> Inl IllegalArgument
   \<and> snd (predict ex_self (ex_store [2, 3]) (Some 10) False False ex_rvs) \<noteq> Inl PredictionException"
proof -
  have dc: "deepcopy (ex_store ds) (posterior_state ex_self) =
              (fst (deepcopy (ex_store ds) (posterior_state ex_self)),
               snd (deepcopy (ex_store ds) (posterior_state ex_self)))" for ds
    by simp
  have at: "ebind (sequence (map (from_numpy (fst (deepcopy (ex_store ds) (posterior_state ex_self))))
                     (snd (deepcopy (ex_store ds) (posterior_state ex_self)))))
              (model_attributes ex_self) = Inr ex_attributes" for ds
    by code_simp
  have pr: "prepare_df ex_self (fst (deepcopy (ex_store ds) (posterior_state ex_self))) (Some 10) =
              (fst (deepcopy (ex_store ds) (posterior_state ex_self)) @ [Frame (ex_df ds)], Inr 21)" for ds
    by code_simp
  have fr: "frame_at (fst (deepcopy (ex_store ds) (posterior_state ex_self)) @ [Frame (ex_df ds)]) 21
              = Inr (ex_df ds)" for ds
    by code_simp
  have ne: "date_values (ex_df [3, 2]) \<noteq> []" "date_values (ex_df [0, 1]) \<noteq> []"
           "date_values (ex_df [2, 3]) \<noteq> []"
    by (simp_all add: ex_df_def)
  note v1 = date_validation[OF dc at pr fr ne(1), of False False ex_rvs]
  note v2 = date_validation[OF dc at pr fr ne(2), of False False ex_rvs]
  note v3 = date_validation[OF dc at pr fr ne(3), of False False ex_rvs]
  have o1: "\<not> sorted_wrt (<) (date_values (ex_df [3, 2]))"
   and o2: "sorted_wrt (<) (date_values (ex_df [0, 1]))"
           "hd (date_values (ex_df [0, 1])) < training_start (training_df_meta ex_self)"
   and o3: "sorted_wrt (<) (date_values (ex_df [2, 3]))"
           "\<not> hd (date_values (ex_df [2, 3])) < training_start (training_df_meta ex_self)"
    by (simp_all add: ex_df_def ex_self_def ex_training_meta_def)
  show ?thesis
    using v1 v2 v3 o1 o2 o3 ne by simp
qed

subsection \<open>Windows inside the training window (claim C3)\<close>

text \<open>
  For prediction dates that are training dates, but not all of them, the horizon is
  negative, and with a combined length within the training length the loop is not
  entered: the trend tensors are slices of the stored ones.
\<close>

lemma horizon_in_sample_negative:
  assumes h: "horizon tm pm = Inr (n, st)"
      and sub: "set (date_array pm) \<subset> set (training_date_array tm)"
      and le: "\<not> prediction_start pm > training_end tm"
  shows "n = - int (card (set (training_date_array tm) - set (date_array pm))) \<and> n < 0"
proof -
  have e: "set (date_array pm) - set (training_date_array tm) = {}" using sub by auto
  have ne: "set (training_date_array tm) - set (date_array pm) \<noteq> {}" using sub by auto
  then have pos: "0 < card (set (training_date_array tm) - set (date_array pm))"
    by (simp add: card_gt_0_iff)
  from h le have "n = - int (card (set (training_date_array tm) - set (date_array pm)))"
    by (auto simp: horizon_def Let_def e ebind_eq_Inr)
  then show ?thesis using pos by simp
qed

lemma in_sample_no_loop:
  assumes "fl \<le> int t0" and "mat (local_trend a) = Inr LT" and "mat (global_trend a) = Inr GT"
  shows "trend slf a include_error rvs t0 fl seas = Inr (slice_to LT fl, slice_to GT fl, seas)"
  using assms by (simp add: trend_def)

text \<open>
  Claim C3 says that for a window strictly inside the training window the output has the
  length of the window and equals the stored trend plus seasonality plus regression of
  the requested rows. The source sizes the components with
  \<open>full_len = trained_len - |training dates not requested|\<close>, which is the end of the
  window only when the window starts at the first training date. With training dates
  \<open>1, \<dots>, 5\<close> and stored values \<open>110, 220, 330, 440, 550\<close>: the window \<open>2, 3, 4\<close> raises
  (two trend columns against three regression columns), the window \<open>2, 3\<close> returns
  \<open>220, 220\<close> (one trend column, broadcast) where the stored values are \<open>220, 330\<close>, and the
  window \<open>3\<close> returns no column at all. The window \<open>1, 2, 3\<close>, which starts at the first
  training date, is returned as stored.
\<close>

theorem in_sample_window_evaluated:
  "snd (predict ex5_self (ex5_store [2, 3, 4]) (Some 8) False False ex_rvs) = Inl RuntimeError
   \<and> snd (predict ex5_self (ex5_store [2, 3]) (Some 8) False False ex_rvs)
       = Inr [(''prediction'', [[220], [220]])]
   \<and> snd (predict ex5_self (ex5_store [3]) (Some 8) False False ex_rvs)
       = Inr [(''prediction'', [])]
   \<and> snd (predict ex5_self (ex5_store [1, 2, 3]) (Some 8) False False ex_rvs)
       = Inr [(''prediction'', [[110], [220], [330]])]"
  by code_simp

subsection \<open>The regression component (claim C6)\<close>

text \<open>
  What holds of the regression component: without regressors it is zero for every draw
  and every output index; with both betas present they are concatenated, positive
  first; and when at least one regular regressor is configured, entry \<open>(i, j)\<close> is the
  combination of row \<open>j\<close> of the regressor matrix with the betas of draw \<open>i\<close>.
\<close>

lemma regression_no_regressors:
  "regressor_col slf = None \<Longrightarrow>
     regression slf a df m = Inr (replicate m (replicate (num_sample a) 0))"
  by (simp add: regression_def zeros_def)

lemma regressor_beta_both:
  "P = [] \<or> Q = [] \<or> length (hd P) = length (hd Q) \<Longrightarrow>
     regressor_beta_of (Some (A2 P)) (Some (A2 Q)) = Inr (Some (A2 (P @ Q)))"
  by (simp add: regressor_beta_of_def as_2d_def cat1_def)

lemma dot_rows:
  "dot (map f [0..<k]) (map g [0..<k]) = (\<Sum>r<k. f r * g r)"
proof -
  have "map2 (*) (map f [0..<k]) (map g [0..<k]) = map (\<lambda>r. f r * g r) [0..<k]"
    by (simp add: zip_map_map zip_same_conv_map)
  then show ?thesis
    by (simp add: dot_def interv_sum_list_conv_sum_set_nat atLeast0LessThan)
qed

lemma regression_regular:
  assumes cfg: "regressor_col slf = Some cols" "regular_regressor_col slf \<noteq> []"
      and beta: "regressor_beta a = Some (A2 B)"
      and X: "df_values df cols = Inr X"
      and k: "length X = k" "length B = k" "0 < k"
      and shX: "\<And>r. r < k \<Longrightarrow> length (X ! r) = m"
      and shB: "\<And>r. r < k \<Longrightarrow> length (B ! r) = n"
      and n: "0 < n"
  shows "\<exists>R. regression slf a df output_len = Inr R \<and> length R = m \<and>
              (\<forall>j<m. length (R ! j) = n \<and>
                 (\<forall>i<n. R ! j ! i = (\<Sum>r<k. X ! r ! j * B ! r ! i)))"
proof -
  have neB: "B = [] \<Longrightarrow> n = 0" and neX: "X = [] \<Longrightarrow> m = 0" using k by auto
  have rB: "\<And>r. r < length B \<Longrightarrow> length (B ! r) = n" using shB k by simp
  have rX: "\<And>r. r < length X \<Longrightarrow> length (X ! r) = m" using shX k by simp
  have tB: "transpose B = map (\<lambda>i. map (\<lambda>r. B ! r ! i) [0..<k]) [0..<n]"
    using transpose_rectangle[OF neB rB] k by simp
  have tX: "transpose X = map (\<lambda>j. map (\<lambda>r. X ! r ! j) [0..<k]) [0..<m]"
    using transpose_rectangle[OF neX rX] k by simp
  define M where "M = map (\<lambda>i. map (\<lambda>j. \<Sum>r<k. X ! r ! j * B ! r ! i) [0..<m]) [0..<n]"
  have ok: "list_all (\<lambda>c. length c = length X) (transpose B)"
    by (simp add: tB k list_all_iff)
  have mm: "matmul X (transpose B) = Inr M"
    by (simp add: matmul_def ok) (simp add: tB tX M_def dot_rows)
  have rect: "\<And>i. i < length M \<Longrightarrow> length (M ! i) = m" by (simp add: M_def)
  have ne: "M = [] \<Longrightarrow> m = 0" using n by (simp add: M_def)
  have tM: "transpose M = map (\<lambda>j. map (\<lambda>i. M ! i ! j) [0..<length M]) [0..<m]"
    by (rule transpose_rectangle[OF ne rect])
  have reg: "regression slf a df output_len = Inr (transpose M)"
    using cfg by (simp add: regression_def beta beta_t_def X mm)
  have "length (transpose M) = m" by (simp add: tM)
  moreover have "\<forall>j<m. length (transpose M ! j) = n \<and>
                 (\<forall>i<n. transpose M ! j ! i = (\<Sum>r<k. X ! r ! j * B ! r ! i))"
    by (simp add: tM) (simp add: M_def)
  ultimately show ?thesis using reg by blast
qed

text \<open>
  Claim C6 says that whenever regressors are configured the regression component is the
  product of the regressor matrix with the concatenated beta draws. Line 323 computes it
  only when \<open>regular_regressor_col\<close> is not empty. With the one regressor \<open>x = 2, 4\<close> and
  beta \<open>1/2\<close>: configured with sign \<open>+\<close> the regression component is zero, configured
  with sign \<open>=\<close> it is \<open>1, 2\<close>. With two draws of a positive beta and no regular beta,
  line 261 raises, since \<open>pr_beta or rr_beta\<close> asks a tensor of two elements for its
  truth value.
\<close>

theorem positive_regressors_evaluated:
  "snd (predict ex6_self_positive (ex6_store [[1/2]]) (Some 9) False True ex_rvs)
     = Inr [(''prediction'', [[70], [147 / 2]]), (''trend'', [[70], [147 / 2]]),
            (''seasonality'', [[0], [0]]), (''regression'', [[0], [0]])]
   \<and> snd (predict ex6_self_regular (ex6_store [[1/2]]) (Some 9) False True ex_rvs)
     = Inr [(''prediction'', [[71], [151 / 2]]), (''trend'', [[70], [147 / 2]]),
            (''seasonality'', [[0], [0]]), (''regression'', [[1], [2]])]
   \<and> regressor_beta_of (Some (A2 [[1/2, 1/4]])) None = Inl RuntimeError"
  by code_simp

subsection \<open>The store across a call\<close>

text \<open>
  \<open>deepcopy\<close> appends one fresh object per entry and leaves the store it was given as a
  prefix; what the call then reads through the copied dictionary is what the stored
  arrays hold.
\<close>

lemma deepcopy_shape:
  "deepcopy s ps = (s1, m) \<Longrightarrow>
     \<exists>ext. s1 = s @ ext \<and> length ext = length ps \<and>
           m = zip (map fst ps) [length s ..< length s + length ps]"
proof (induction ps arbitrary: s s1 m)
  case Nil
  then show ?case by simp
next
  case (Cons ka kas)
  obtain k a where ka: "ka = (k, a)" by (cases ka)
  obtain s2 m2 where rec: "deepcopy (s @ [s ! a]) kas = (s2, m2)"
    by (cases "deepcopy (s @ [s ! a]) kas")
  from Cons.prems have res: "s1 = s2" "m = (k, length s) # m2"
    by (simp_all add: ka alloc_def rec)
  from Cons.IH[OF rec] obtain ext where
    ext: "s2 = (s @ [s ! a]) @ ext" "length ext = length kas"
         "m2 = zip (map fst kas) [length (s @ [s ! a]) ..< length (s @ [s ! a]) + length kas]"
    by blast
  have "s1 = s @ ((s ! a) # ext)" using res ext by simp
  moreover have "length ((s ! a) # ext) = length (ka # kas)" using ext by simp
  moreover have "[length s ..< length s + length (ka # kas)] =
                   length s # [length (s @ [s ! a]) ..< length (s @ [s ! a]) + length kas]"
    by (subst upt_conv_Cons) simp_all
  then have "m = zip (map fst (ka # kas)) [length s ..< length s + length (ka # kas)]"
    using res ext(3) ka by simp
  ultimately show ?case by blast
qed

lemma deepcopy_prefix:
  assumes "deepcopy s ps = (s1, m)"
  shows "length s \<le> length s1" and "b < length s \<Longrightarrow> s1 ! b = s ! b"
    and "ka \<in> set m \<Longrightarrow> length s \<le> snd ka"
proof -
  from deepcopy_shape[OF assms] obtain ext where
    e: "s1 = s @ ext" "length ext = length ps"
       "m = zip (map fst ps) [length s ..< length s + length ps]"
    by blast
  show "length s \<le> length s1" using e by simp
  show "b < length s \<Longrightarrow> s1 ! b = s ! b" using e by (simp add: nth_append)
  show "ka \<in> set m \<Longrightarrow> length s \<le> snd ka"
  proof -
    assume in_m: "ka \<in> set m"
    obtain k b where kb: "ka = (k, b)" by (cases ka)
    have "b \<in> set [length s ..< length s + length ps]"
      using in_m unfolding e(3) kb by (rule set_zip_rightD)
    then show ?thesis by (simp add: kb)
  qed
qed

lemma deepcopy_reads:
  "deepcopy s ps = (s1, m) \<Longrightarrow> \<forall>ka\<in>set ps. snd ka < length s \<Longrightarrow>
     map (from_numpy s1) m = map (from_numpy s) ps"
proof (induction ps arbitrary: s s1 m)
  case Nil
  then show ?case by simp
next
  case (Cons ka kas)
  obtain k a where ka: "ka = (k, a)" by (cases ka)
  obtain s2 m2 where rec: "deepcopy (s @ [s ! a]) kas = (s2, m2)"
    by (cases "deepcopy (s @ [s ! a]) kas")
  from Cons.prems(1) have res: "s1 = s2" "m = (k, length s) # m2"
    by (simp_all add: ka alloc_def rec)
  have a: "a < length s" using Cons.prems(2) ka by simp
  have valid': "\<forall>ka\<in>set kas. snd ka < length (s @ [s ! a])"
    using Cons.prems(2) by auto
  have IH: "map (from_numpy s2) m2 = map (from_numpy (s @ [s ! a])) kas"
    by (rule Cons.IH[OF rec valid'])
  have same: "map (from_numpy (s @ [s ! a])) kas = map (from_numpy s) kas"
    using Cons.prems(2) by (auto simp: from_numpy_def nth_append)
  have len: "length s < length s2"
    using deepcopy_prefix(1)[OF rec] by simp
  have hd: "s2 ! length s = s ! a"
    using deepcopy_prefix(2)[OF rec, of "length s"] by (simp add: nth_append)
  have "from_numpy s2 (k, length s) = from_numpy s (k, a)"
    using len hd a by (simp add: from_numpy_def split: obj.split)
  then show ?case using res IH same ka by simp
qed

lemma from_numpy_agree:
  "\<forall>ka\<in>set ps. snd ka < length s \<and> snd ka < length t \<and> t ! snd ka = s ! snd ka \<Longrightarrow>
     map (from_numpy t) ps = map (from_numpy s) ps"
  by (auto simp: from_numpy_def)

text \<open>Preparing the frame touches nothing that was in the store before.\<close>

lemma df_copy_cases:
  "df_copy s a = (s, Inl OutsideModel) \<or>
   (\<exists>f. a < length s \<and> s ! a = Frame f \<and> df_copy s a = (s @ [Frame f], Inr (length s)))"
  by (auto simp: df_copy_def alloc_def split: obj.split)

lemma local_methodD:
  assumes "local_method h" and "a < length s"
  shows "length s \<le> length (fst (h s a))"
    and "b < length s \<Longrightarrow> b \<noteq> a \<Longrightarrow> fst (h s a) ! b = s ! b"
    and "snd (h s a) = Inr a' \<Longrightarrow> a' < length (fst (h s a)) \<and> (a' = a \<or> length s \<le> a')"
  using assms unfolding local_method_def by blast+

lemma prepare_df_preserves:
  assumes l1: "local_method (scale_df slf)" and l2: "local_method (log_transform_df slf)"
      and p: "prepare_df slf s df = (s2, r)"
  shows "length s \<le> length s2 \<and> (\<forall>b<length s. s2 ! b = s ! b)
         \<and> (\<forall>dfa. r = Inr dfa \<longrightarrow> length s \<le> dfa \<and> dfa < length s2)"
proof (cases df)
  case None
  then show ?thesis using p by (auto simp: prepare_df_def)
next
  case (Some a)
  from df_copy_cases[of s a] show ?thesis
  proof
    assume "df_copy s a = (s, Inl OutsideModel)"
    then show ?thesis using p Some by (auto simp: prepare_df_def)
  next
    assume "\<exists>f. a < length s \<and> s ! a = Frame f \<and> df_copy s a = (s @ [Frame f], Inr (length s))"
    then obtain f where cp: "df_copy s a = (s @ [Frame f], Inr (length s))" by blast
    let ?s1 = "s @ [Frame f]" and ?a1 = "length s"
    define sc where "sc = (if auto_scale slf then scale_df slf ?s1 ?a1 else (?s1, Inr ?a1))"
    have sc: "length ?s1 \<le> length (fst sc) \<and> (\<forall>b<length s. fst sc ! b = s ! b)
              \<and> (\<forall>a2. snd sc = Inr a2 \<longrightarrow> length s \<le> a2 \<and> a2 < length (fst sc))"
    proof (cases "auto_scale slf")
      case False
      then show ?thesis by (simp add: sc_def nth_append)
    next
      case True
      have a1: "?a1 < length ?s1" by simp
      note d = local_methodD[OF l1 a1]
      have "\<forall>b<length s. fst (scale_df slf ?s1 ?a1) ! b = s ! b"
        using d(2) by (simp add: nth_append)
      moreover have "\<forall>a2. snd (scale_df slf ?s1 ?a1) = Inr a2 \<longrightarrow>
                       length s \<le> a2 \<and> a2 < length (fst (scale_df slf ?s1 ?a1))"
        using d(3) by auto
      ultimately show ?thesis using d(1) True by (simp add: sc_def)
    qed
    have pd: "prepare_df slf s df =
                (case sc of (s2, Inl e) \<Rightarrow> (s2, Inl e)
                 | (s2, Inr a2) \<Rightarrow> (if is_multiplicative slf then log_transform_df slf s2 a2
                                     else (s2, Inr a2)))"
      by (simp add: prepare_df_def Some cp sc_def)
    show ?thesis
    proof (cases "snd sc")
      case (Inl e)
      then have "prepare_df slf s df = (fst sc, Inl e)"
        by (cases sc) (simp add: pd)
      then show ?thesis using p sc by auto
    next
      case (Inr a2)
      then have pd2: "prepare_df slf s df =
                  (if is_multiplicative slf then log_transform_df slf (fst sc) a2 else (fst sc, Inr a2))"
        by (cases sc) (simp add: pd)
      have a2: "length s \<le> a2" "a2 < length (fst sc)" using sc Inr by auto
      show ?thesis
      proof (cases "is_multiplicative slf")
        case False
        then show ?thesis using p pd2 sc a2 by auto
      next
        case True
        note d = local_methodD[OF l2 a2(2)]
        have eq: "(s2, r) = log_transform_df slf (fst sc) a2" using p pd2 True by simp
        then have s2: "s2 = fst (log_transform_df slf (fst sc) a2)"
              and r: "r = snd (log_transform_df slf (fst sc) a2)"
          by (metis fst_conv, metis snd_conv)
        have "length s \<le> length s2" using d(1) sc s2 by simp
        moreover have "\<forall>b<length s. s2 ! b = s ! b"
        proof (intro allI impI)
          fix b assume b: "b < length s"
          then have "b < length (fst sc)" "b \<noteq> a2" using sc a2 by auto
          then show "s2 ! b = s ! b" using d(2) sc b s2 by simp
        qed
        moreover have "\<forall>dfa. r = Inr dfa \<longrightarrow> length s \<le> dfa \<and> dfa < length s2"
          using d(3) r s2 a2 sc by auto
        ultimately show ?thesis by blast
      qed
    qed
  qed
qed

text \<open>The loop's writes to the seasonality view land in an object of the copy.\<close>

lemma write_back_preserves:
  assumes "\<forall>ka\<in>set model. L \<le> snd ka" and "b < L"
  shows "write_back slf model a c s ! b = s ! b"
proof -
  have "map_of model SEASONALITY_LEVELS = Some ad \<Longrightarrow> b \<noteq> ad" for ad
    using assms by (auto dest!: map_of_SomeD)
  then show ?thesis
    by (auto simp: write_back_def split: option.split ndarray.split)
qed

lemma write_back_length: "length (write_back slf model a c s) = length s"
  by (auto simp: write_back_def split: option.split ndarray.split)

lemma predict_preserves:
  assumes l1: "local_method (scale_df slf)" and l2: "local_method (log_transform_df slf)"
  shows "length s \<le> length (fst (predict slf s df include_error decompose rvs))
         \<and> (\<forall>b<length s. fst (predict slf s df include_error decompose rvs) ! b = s ! b)"
proof -
  obtain s1 m where dc: "deepcopy s (posterior_state slf) = (s1, m)"
    by (cases "deepcopy s (posterior_state slf)")
  note pre = deepcopy_prefix[OF dc]
  obtain s2 r where pr: "prepare_df slf s1 df = (s2, r)"
    by (cases "prepare_df slf s1 df")
  from prepare_df_preserves[OF l1 l2 pr]
  have p2: "length s1 \<le> length s2" "\<forall>b<length s1. s2 ! b = s1 ! b" by auto
  have s2: "length s \<le> length s2" "\<forall>b<length s. s2 ! b = s ! b"
    using pre(1,2) p2 by auto
  have m: "\<forall>ka\<in>set m. length s \<le> snd ka" using pre(3) by blast
  have wb: "\<forall>b<length s. write_back slf m a c s2 ! b = s ! b" for a c
    using write_back_preserves[OF m] s2 by simp
  have cases: "fst (predict slf s df include_error decompose rvs) = s1
             \<or> fst (predict slf s df include_error decompose rvs) = s2
             \<or> (\<exists>a c. fst (predict slf s df include_error decompose rvs) = write_back slf m a c s2)"
    by (auto simp: predict_def dc pr split: sum.split)
  then show ?thesis
    using pre(1,2) s2 wb write_back_length by (elim disjE exE) simp_all
qed

subsection \<open>What the result depends on\<close>

lemma forecast_step_no_noise:
  "forecast_step slf a False rvs fl idx st = forecast_step slf a False rvs' fl idx st"
  by (simp add: forecast_step_def)

lemma components_no_noise:
  "components slf a f False rvs = components slf a f False rvs'"
proof -
  have "forecast_step slf a False rvs = forecast_step slf a False rvs'"
    by (intro ext) (rule forecast_step_no_noise)
  then have "forecast_loop slf a False rvs = forecast_loop slf a False rvs'"
    by (intro ext) (simp add: forecast_loop_def)
  then have eq: "trend slf a False rvs = trend slf a False rvs'"
    by (intro ext) (simp add: trend_def)
  show ?thesis unfolding components_def eq ..
qed

lemma predict_result:
  assumes "deepcopy s (posterior_state slf) = (s1, m)"
  shows "snd (predict slf s df include_error decompose rvs) =
           (case ebind (sequence (map (from_numpy s1) m)) (model_attributes slf) of
              Inl e \<Rightarrow> Inl e
            | Inr a \<Rightarrow>
                (case prepared slf s1 df of
                   Inl e \<Rightarrow> Inl e
                 | Inr f \<Rightarrow>
                     (case components slf a f include_error rvs of
                        Inl e \<Rightarrow> Inl e
                      | Inr c \<Rightarrow> combine slf c decompose)))"
  by (auto simp: predict_def prepared_def assms split: sum.split prod.split)

lemma same_outcome_frame:
  "same_outcome x y \<Longrightarrow>
     (case x of (s2, Inl e) \<Rightarrow> Inl e | (s2, Inr b) \<Rightarrow> frame_at s2 b) =
     (case y of (s2, Inl e) \<Rightarrow> Inl e | (s2, Inr b) \<Rightarrow> frame_at s2 b)"
  by (cases x; cases y) (auto simp: same_outcome_def split: sum.splits)

lemma same_outcome_Inr:
  "frame_at s b = Inr g \<Longrightarrow> frame_at s' b' = Inr g \<Longrightarrow> same_outcome (s, Inr b) (s', Inr b')"
  by (simp add: same_outcome_def)

lemma same_outcome_step:
  assumes d: "content_determined h" and so: "same_outcome x y"
  shows "same_outcome
           (case x of (s2, Inl e) \<Rightarrow> (s2, Inl e)
            | (s2, Inr a2) \<Rightarrow> (if c then h s2 a2 else (s2, Inr a2)))
           (case y of (s2, Inl e) \<Rightarrow> (s2, Inl e)
            | (s2, Inr a2) \<Rightarrow> (if c then h s2 a2 else (s2, Inr a2)))"
proof -
  obtain sx rx where x: "x = (sx, rx)" by (cases x)
  obtain sy ry where y: "y = (sy, ry)" by (cases y)
  show ?thesis
  proof (cases rx)
    case (Inl e)
    then show ?thesis using so by (cases ry) (simp_all add: x y same_outcome_def)
  next
    case (Inr b)
    then obtain b' where ry: "ry = Inr b'" using so by (cases ry) (simp_all add: x y same_outcome_def)
    from so obtain g where g: "frame_at sx b = Inr g" "frame_at sy b' = Inr g"
      by (cases "frame_at sx b") (simp_all add: x y Inr ry same_outcome_def)
    show ?thesis
    proof (cases c)
      case True
      have "same_outcome (h sx b) (h sy b')"
        using d g unfolding content_determined_def by blast
      then show ?thesis by (simp add: x y Inr ry True)
    next
      case False
      then show ?thesis using so by (simp add: x y Inr ry)
    qed
  qed
qed

lemma prepared_cong:
  assumes d1: "content_determined (scale_df slf)" and d2: "content_determined (log_transform_df slf)"
      and ag: "\<forall>a. df = Some a \<longrightarrow> a < length s \<and> a < length t \<and> t ! a = s ! a"
  shows "prepared slf t df = prepared slf s df"
proof (cases df)
  case None
  then show ?thesis by (simp add: prepared_def prepare_df_def)
next
  case (Some a)
  then have a: "a < length s" "a < length t" "t ! a = s ! a" using ag by auto
  show ?thesis
  proof (cases "s ! a")
    case (Array v)
    then show ?thesis using a by (simp add: prepared_def prepare_df_def df_copy_def Some)
  next
    case (Frame f)
    let ?x0 = "(s @ [Frame f], Inr (length s))" and ?y0 = "(t @ [Frame f], Inr (length t))"
    have cs: "df_copy s a = ?x0" and ct: "df_copy t a = ?y0"
      using a Frame by (simp_all add: df_copy_def alloc_def)
    have so0: "same_outcome ?x0 ?y0"
      by (rule same_outcome_Inr[of _ _ f]) (simp_all add: frame_at_def)
    let ?x1 = "case ?x0 of (s2, Inl e) \<Rightarrow> (s2, Inl e)
               | (s2, Inr a2) \<Rightarrow> (if auto_scale slf then scale_df slf s2 a2 else (s2, Inr a2))"
    let ?y1 = "case ?y0 of (s2, Inl e) \<Rightarrow> (s2, Inl e)
               | (s2, Inr a2) \<Rightarrow> (if auto_scale slf then scale_df slf s2 a2 else (s2, Inr a2))"
    have so1: "same_outcome ?x1 ?y1" by (rule same_outcome_step[OF d1 so0])
    let ?x2 = "case ?x1 of (s2, Inl e) \<Rightarrow> (s2, Inl e)
               | (s2, Inr a2) \<Rightarrow> (if is_multiplicative slf then log_transform_df slf s2 a2 else (s2, Inr a2))"
    let ?y2 = "case ?y1 of (s2, Inl e) \<Rightarrow> (s2, Inl e)
               | (s2, Inr a2) \<Rightarrow> (if is_multiplicative slf then log_transform_df slf s2 a2 else (s2, Inr a2))"
    have so2: "same_outcome ?x2 ?y2" by (rule same_outcome_step[OF d2 so1])
    have ps: "prepare_df slf s df = ?x2" and pt: "prepare_df slf t df = ?y2"
      by (simp_all add: prepare_df_def Some cs ct)
    show ?thesis
      unfolding prepared_def ps pt using same_outcome_frame[OF so2] by simp
  qed
qed

lemma predict_cong:
  assumes d1: "content_determined (scale_df slf)" and d2: "content_determined (log_transform_df slf)"
      and ps: "\<forall>ka\<in>set (posterior_state slf).
                 snd ka < length s \<and> snd ka < length t \<and> t ! snd ka = s ! snd ka"
      and ag: "\<forall>a. df = Some a \<longrightarrow> a < length s \<and> a < length t \<and> t ! a = s ! a"
  shows "snd (predict slf t df False decompose rvs') = snd (predict slf s df False decompose rvs)"
proof -
  obtain s1 m1 where ds: "deepcopy s (posterior_state slf) = (s1, m1)"
    by (cases "deepcopy s (posterior_state slf)")
  obtain t1 m2 where dt: "deepcopy t (posterior_state slf) = (t1, m2)"
    by (cases "deepcopy t (posterior_state slf)")
  have vs: "\<forall>ka\<in>set (posterior_state slf). snd ka < length s"
   and vt: "\<forall>ka\<in>set (posterior_state slf). snd ka < length t"
    using ps by auto
  have reads: "map (from_numpy t1) m2 = map (from_numpy s1) m1"
    using deepcopy_reads[OF ds vs] deepcopy_reads[OF dt vt] from_numpy_agree[OF ps] by simp
  have ag1: "\<forall>a. df = Some a \<longrightarrow> a < length s1 \<and> a < length t1 \<and> t1 ! a = s1 ! a"
  proof (intro allI impI)
    fix a assume "df = Some a"
    then have a: "a < length s" "a < length t" "t ! a = s ! a" using ag by auto
    show "a < length s1 \<and> a < length t1 \<and> t1 ! a = s1 ! a"
      using a deepcopy_prefix(1,2)[OF ds] deepcopy_prefix(1,2)[OF dt] by simp
  qed
  have prep: "prepared slf t1 df = prepared slf s1 df"
    by (rule prepared_cong[OF d1 d2 ag1])
  show ?thesis
    unfolding predict_result[OF ds] predict_result[OF dt] reads prep
    using components_no_noise[of slf _ _ rvs' rvs]
    by (auto split: sum.split)
qed

lemma local_method_id: "local_method (\<lambda>s a. (s, Inr a))"
  by (simp add: local_method_def)

lemma content_determined_id: "content_determined (\<lambda>s a. (s, Inr a))"
  by (simp add: content_determined_def same_outcome_def)

lemma local_method_ex_log_transform: "local_method ex_log_transform"
  by (auto simp: local_method_def ex_log_transform_def split: obj.split)

subsection \<open>Repeated calls and the stored posterior (claim C8)\<close>

text \<open>
  Claim C8. Two calls to predict with identical inputs and \<open>include_error=False\<close> produce
  identical output, and no prediction call mutates the stored posterior draws: each call
  works on a deep copy of the posterior state, and no noise is injected when
  \<open>include_error=False\<close>.

  On the store: for any call, with or without noise, every stored posterior array is
  after the call what it was before; the dictionary the call works with refers to fresh
  objects only; a second call, made in the store the first one left and with any
  sampler, returns what the first returned; and without errors the result does not
  depend on the sampler. The parent's two methods are assumed local and content
  determined, and the references of the posterior state and of the frame are references
  of the store. Identical output is equality of the idealised values.
\<close>

theorem prediction_idempotent:
  assumes l1: "local_method (scale_df slf)" and l2: "local_method (log_transform_df slf)"
      and d1: "content_determined (scale_df slf)" and d2: "content_determined (log_transform_df slf)"
      and valid: "\<forall>ka\<in>set (posterior_state slf). snd ka < length s"
      and dfv: "\<forall>a. df = Some a \<longrightarrow> a < length s"
  shows "(\<forall>ka\<in>set (posterior_state slf).
            fst (predict slf s df include_error decompose rvs) ! snd ka = s ! snd ka)
       \<and> (\<forall>ka\<in>set (snd (deepcopy s (posterior_state slf))). length s \<le> snd ka)
       \<and> snd (predict slf (fst (predict slf s df False decompose rvs)) df False decompose rvs')
           = snd (predict slf s df False decompose rvs)
       \<and> snd (predict slf s df False decompose rvs') = snd (predict slf s df False decompose rvs)"
proof (intro conjI)
  show "\<forall>ka\<in>set (posterior_state slf).
            fst (predict slf s df include_error decompose rvs) ! snd ka = s ! snd ka"
    using predict_preserves[OF l1 l2, of s df include_error decompose rvs] valid by simp
next
  show "\<forall>ka\<in>set (snd (deepcopy s (posterior_state slf))). length s \<le> snd ka"
    using deepcopy_prefix(3)[of s "posterior_state slf"]
    by (cases "deepcopy s (posterior_state slf)") auto
next
  let ?t = "fst (predict slf s df False decompose rvs)"
  note pre = predict_preserves[OF l1 l2, of s df False decompose rvs]
  have ps: "\<forall>ka\<in>set (posterior_state slf).
                 snd ka < length s \<and> snd ka < length ?t \<and> ?t ! snd ka = s ! snd ka"
    using pre valid by auto
  have ag: "\<forall>a. df = Some a \<longrightarrow> a < length s \<and> a < length ?t \<and> ?t ! a = s ! a"
    using pre dfv by auto
  show "snd (predict slf ?t df False decompose rvs') = snd (predict slf s df False decompose rvs)"
    by (rule predict_cong[OF d1 d2 ps ag])
next
  have ps: "\<forall>ka\<in>set (posterior_state slf).
                 snd ka < length s \<and> snd ka < length s \<and> s ! snd ka = s ! snd ka"
    using valid by simp
  have ag: "\<forall>a. df = Some a \<longrightarrow> a < length s \<and> a < length s \<and> s ! a = s ! a"
    using dfv by simp
  show "snd (predict slf s df False decompose rvs') = snd (predict slf s df False decompose rvs)"
    by (rule predict_cong[OF d1 d2 ps ag])
qed

theorem prediction_idempotent_witness:
  "local_method (scale_df ex_self) \<and> local_method (log_transform_df ex_self)
   \<and> content_determined (scale_df ex_self) \<and> content_determined (log_transform_df ex_self)
   \<and> fst (predict ex_self (ex_store [2, 3, 4, 5]) (Some 10) True False ex_rvs) ! 8
       = Array (A2 [[1, 2], [3, 4], [5, 6], [7, 8], [9, 10]])
   \<and> snd (predict ex_self (fst (predict ex_self (ex_store [2, 3, 4, 5]) (Some 10) False False ex_rvs))
             (Some 10) False False (\<lambda>t. [0, 0]))
       = snd (predict ex_self (ex_store [2, 3, 4, 5]) (Some 10) False False ex_rvs)
   \<and> snd (predict ex_self (ex_store [2, 3, 4, 5]) (Some 10) False False ex_rvs)
       = Inr [(''prediction'', [[22, 39], [25, 43], [55 / 2, 49], [103 / 4, 101 / 2]])]
   \<and> fst (predict ex_self (ex_store [2, 3, 4, 5]) (Some 10) False False ex_rvs) ! 19
       = Array (A2 [[1, 2], [3, 4], [5, 6], [7, 8], [5, 6]])"
proof -
  have h: "scale_df ex_self = (\<lambda>s a. (s, Inr a))" "log_transform_df ex_self = (\<lambda>s a. (s, Inr a))"
    by (simp_all add: ex_self_def)
  have l: "local_method (scale_df ex_self)" "local_method (log_transform_df ex_self)"
    unfolding h by (rule local_method_id)+
  have d: "content_determined (scale_df ex_self)" "content_determined (log_transform_df ex_self)"
    unfolding h by (rule content_determined_id)+
  have valid: "\<forall>ka\<in>set (posterior_state ex_self). snd ka < length (ex_store [2, 3, 4, 5])"
    by (simp add: ex_self_def ex_store_def)
  have dfv: "\<forall>a. Some 10 = Some a \<longrightarrow> a < length (ex_store [2, 3, 4, 5])"
    by (simp add: ex_store_def)
  have mem: "(SEASONALITY_LEVELS, 8) \<in> set (posterior_state ex_self)"
    by (simp add: ex_self_def)
  note t1 = prediction_idempotent[OF l d valid dfv, of True False ex_rvs ex_rvs]
  note t2 = prediction_idempotent[OF l d valid dfv, of False False ex_rvs "\<lambda>t. [0, 0]"]
  have a: "fst (predict ex_self (ex_store [2, 3, 4, 5]) (Some 10) True False ex_rvs) ! 8
       = Array (A2 [[1, 2], [3, 4], [5, 6], [7, 8], [9, 10]])"
    using t1 mem by (auto simp: ex_store_def)
  have b: "snd (predict ex_self (fst (predict ex_self (ex_store [2, 3, 4, 5]) (Some 10) False False ex_rvs))
             (Some 10) False False (\<lambda>t. [0, 0]))
       = snd (predict ex_self (ex_store [2, 3, 4, 5]) (Some 10) False False ex_rvs)"
    using t2 by blast
  have c: "snd (predict ex_self (ex_store [2, 3, 4, 5]) (Some 10) False False ex_rvs)
       = Inr [(''prediction'', [[22, 39], [25, 43], [55 / 2, 49], [103 / 4, 101 / 2]])]"
    by code_simp
  have e: "fst (predict ex_self (ex_store [2, 3, 4, 5]) (Some 10) False False ex_rvs) ! 19
       = Array (A2 [[1, 2], [3, 4], [5, 6], [7, 8], [5, 6]])"
    by code_simp
  show ?thesis using l d a b c e by blast
qed

subsection \<open>The caller's frame (claim C10)\<close>

text \<open>
  Claim C10. For every call to the prediction routine the caller's data frame is left
  unchanged: the scaling and the logarithm are applied to an internal copy only.

  On the store: the object at the caller's reference is after the call what it was
  before, and the frame the rest of the call reads is at another, fresh reference. The
  parent's two methods are assumed local: whatever they do, they do it to the frame they
  are handed. In the example the logarithm is taken in place, and it is the copy that
  holds the logarithms afterwards.
\<close>

theorem caller_frame_unchanged:
  assumes l1: "local_method (scale_df slf)" and l2: "local_method (log_transform_df slf)"
      and a: "a < length s"
  shows "fst (predict slf s (Some a) include_error decompose rvs) ! a = s ! a
       \<and> (\<forall>s2 dfa. prepare_df slf (fst (deepcopy s (posterior_state slf))) (Some a) = (s2, Inr dfa)
            \<longrightarrow> length s \<le> dfa \<and> dfa \<noteq> a)"
proof
  show "fst (predict slf s (Some a) include_error decompose rvs) ! a = s ! a"
    using predict_preserves[OF l1 l2, of s "Some a" include_error decompose rvs] a by simp
next
  obtain s1 m where dc: "deepcopy s (posterior_state slf) = (s1, m)"
    by (cases "deepcopy s (posterior_state slf)")
  have le: "length s \<le> length s1" by (rule deepcopy_prefix(1)[OF dc])
  show "\<forall>s2 dfa. prepare_df slf (fst (deepcopy s (posterior_state slf))) (Some a) = (s2, Inr dfa)
            \<longrightarrow> length s \<le> dfa \<and> dfa \<noteq> a"
  proof (intro allI impI)
    fix s2 dfa
    assume "prepare_df slf (fst (deepcopy s (posterior_state slf))) (Some a) = (s2, Inr dfa)"
    then have "prepare_df slf s1 (Some a) = (s2, Inr dfa)" by (simp add: dc)
    from prepare_df_preserves[OF l1 l2 this] have "length s1 \<le> dfa" by simp
    then show "length s \<le> dfa \<and> dfa \<noteq> a" using le a by simp
  qed
qed

theorem caller_frame_unchanged_witness:
  "local_method (scale_df ex10_self) \<and> local_method (log_transform_df ex10_self)
   \<and> 9 < length (ex6_store [[1/2]])
   \<and> fst (predict ex10_self (ex6_store [[1/2]]) (Some 9) False False ex_rvs) ! 9
       = Frame \<lparr> date_values = [6, 7], num_columns = [(''x'', [2, 4])] \<rparr>
   \<and> fst (predict ex10_self (ex6_store [[1/2]]) (Some 9) False False ex_rvs) ! 19
       = Frame \<lparr> date_values = [6, 7], num_columns = [(''x'', [torch_log 2, torch_log 4])] \<rparr>"
proof -
  have h: "scale_df ex10_self = (\<lambda>s a. (s, Inr a))" "log_transform_df ex10_self = ex_log_transform"
    by (simp_all add: ex10_self_def ex6_self_regular_def ex5_self_def)
  have l: "local_method (scale_df ex10_self)" "local_method (log_transform_df ex10_self)"
    unfolding h by (rule local_method_id, rule local_method_ex_log_transform)
  have a: "9 < length (ex6_store [[1/2]])" by (simp add: ex6_store_def)
  from caller_frame_unchanged[OF l a, of False False ex_rvs]
  have u: "fst (predict ex10_self (ex6_store [[1/2]]) (Some 9) False False ex_rvs) ! 9
       = Frame \<lparr> date_values = [6, 7], num_columns = [(''x'', [2, 4])] \<rparr>"
    by (simp add: ex6_store_def)
  have c: "fst (predict ex10_self (ex6_store [[1/2]]) (Some 9) False False ex_rvs) ! 19
       = Frame \<lparr> date_values = [6, 7], num_columns = [(''x'', [torch_log 2, torch_log 4])] \<rparr>"
    by code_simp
  show ?thesis using l a u c by blast
qed

end
